theory Spec2Isabelle
  imports Main "HOL-Library.Sublist"
begin

section \<open>JavaScript values\<close>

text \<open>
  The program handles parsed JSON documents (the config files, the HTTP response body) and
  tests them with \<^verbatim>\<open>!x\<close>, reads properties of them and splices them into strings.
  \<open>jsval\<close> is the part of the JavaScript value space that \<^verbatim>\<open>JSON.parse\<close> produces,
  plus \<^verbatim>\<open>undefined\<close> (the value of an absent property). A string is the list of the
  bytes of its text in UTF-8. A number is kept as what the program can make of it: whether
  it is truthy (neither zero nor \<^verbatim>\<open>NaN\<close>), and the text of its conversion to a string.
  An object is the list of its own properties in the order they were added; of a list that
  repeats a name, the first entry is the property.
\<close>

datatype jsval =
    JUndefined
  | JNull
  | JBool bool
  | JNum bool string
  | JStr string
  | JArr "jsval list"
  | JObj "(string \<times> jsval) list"

text \<open>
  The errors a promise of the program is rejected with. \<open>ConfigMissingOrCorrupt\<close> is the
  \<^verbatim>\<open>Error('Missing or corrupt config file, please run `rnplay -a`')\<close> of \<^verbatim>\<open>readConfig\<close>,
  \<open>InvalidConfig\<close> the \<^verbatim>\<open>Error('Invalid config, please run `rnplay -a` first')\<close> of the
  config check; \<open>TypeError\<close> and \<open>ReferenceError\<close> (with the name of the variable) are thrown
  by the language; \<open>RemoteApiError\<close>, \<open>ShellCommandError\<close>, \<open>WriteError\<close> and \<open>InputError\<close>
  carry the message of a failed request, command, file write and prompt; \<open>FileNotFound\<close> is
  a failed file read and \<open>ModuleNotFound\<close> a failed \<^verbatim>\<open>require\<close>.
\<close>

datatype error =
    ConfigMissingOrCorrupt
  | InvalidConfig
  | TypeError
  | ReferenceError string
  | RemoteApiError string
  | ShellCommandError string
  | WriteError string
  | InputError string
  | FileNotFound
  | ModuleNotFound

text \<open>JavaScript truthiness: what \<^verbatim>\<open>!x\<close>, \<^verbatim>\<open>x ? a : b\<close> and \<^verbatim>\<open>x && y\<close> test.\<close>

fun truthy :: "jsval \<Rightarrow> bool" where
  "truthy JUndefined = False"
| "truthy JNull = False"
| "truthy (JBool b) = b"
| "truthy (JNum nonzero text) = nonzero"
| "truthy (JStr s) = (s \<noteq> [])"
| "truthy (JArr xs) = True"
| "truthy (JObj kvs) = True"

text \<open>
  \<^verbatim>\<open>o.k\<close> for the property names the program reads (\<^verbatim>\<open>email\<close>, \<^verbatim>\<open>token\<close>,
  \<^verbatim>\<open>urlToken\<close>, \<^verbatim>\<open>url_token\<close>), none of which is a built-in property of strings, arrays
  or numbers: reading a property of \<^verbatim>\<open>undefined\<close> or \<^verbatim>\<open>null\<close> throws a TypeError, an
  object yields its own property or \<^verbatim>\<open>undefined\<close>, every other value yields
  \<^verbatim>\<open>undefined\<close>.
\<close>

fun get_prop :: "jsval \<Rightarrow> string \<Rightarrow> error + jsval" where
  "get_prop JUndefined k = Inl TypeError"
| "get_prop JNull k = Inl TypeError"
| "get_prop (JObj kvs) k = (case map_of kvs k of None \<Rightarrow> Inr JUndefined | Some v \<Rightarrow> Inr v)"
| "get_prop v k = Inr JUndefined"

text \<open>\<^verbatim>\<open>o.k = v\<close> on an object: an existing property keeps its place, a new one goes last.\<close>

fun obj_put :: "(string \<times> jsval) list \<Rightarrow> string \<Rightarrow> jsval \<Rightarrow> (string \<times> jsval) list" where
  "obj_put [] k v = [(k, v)]"
| "obj_put ((k', v') # kvs) k v = (if k' = k then (k, v) # kvs else (k', v') # obj_put kvs k v)"

text \<open>Decimal digits of a natural number and of an integer.\<close>

definition digit_char :: "nat \<Rightarrow> char" where
  "digit_char d = char_of (48 + d)"

fun show_nat :: "nat \<Rightarrow> string" where
  "show_nat n = (if n < 10 then [digit_char n] else show_nat (n div 10) @ [digit_char (n mod 10)])"

declare show_nat.simps [simp del]

function show_digits :: "int \<Rightarrow> string" where
  "show_digits n =
     (if n < 10 then [digit_char (nat n)]
      else show_digits (n div 10) @ [digit_char (nat (n mod 10))])"
  by pat_completeness auto

termination show_digits
  by (relation "measure nat") auto

declare show_digits.simps [simp del]

definition show_int :: "int \<Rightarrow> string" where
  "show_int i = (if i < 0 then CHR ''-'' # show_digits (- i) else show_digits i)"

text \<open>
  The number \<open>n\<close>, for an integer that a double holds exactly and writes in plain digits
  (one between \<open>-(2^53 - 1)\<close> and \<open>2^53 - 1\<close>).
\<close>

definition js_int :: "int \<Rightarrow> jsval" where
  "js_int n = JNum (n \<noteq> 0) (show_int n)"

definition commas :: "string list \<Rightarrow> string" where
  "commas xs = concat (case xs of [] \<Rightarrow> [] | y # ys \<Rightarrow> y # map (\<lambda>s. CHR '','' # s) ys)"

text \<open>
  The string conversion of a template literal \<^verbatim>\<open>`${v}`\<close> and of \<^verbatim>\<open>'...' + v\<close>. An
  object made by \<^verbatim>\<open>JSON.parse\<close> converts through \<^verbatim>\<open>Object.prototype.toString\<close>, unless
  it has an own (and then not callable) \<^verbatim>\<open>toString\<close> property, where the conversion
  throws a TypeError; an array joins the conversions of its elements.
\<close>

primrec ToString :: "jsval \<Rightarrow> error + string" where
  "ToString JUndefined = Inr ''undefined''"
| "ToString JNull = Inr ''null''"
| "ToString (JBool b) = Inr (if b then ''true'' else ''false'')"
| "ToString (JNum nonzero text) = Inr text"
| "ToString (JStr s) = Inr s"
| "ToString (JArr xs) =
     (if \<exists>r \<in> set (map ToString xs). isl r then Inl TypeError
      else Inr (commas (map (\<lambda>(x, r). if x = JUndefined \<or> x = JNull then [] else projr r)
                          (zip xs (map ToString xs)))))"
| "ToString (JObj kvs) =
     (if ''toString'' \<in> set (map fst kvs) then Inl TypeError else Inr ''[object Object]'')"

section \<open>The order of the properties of an object\<close>

text \<open>
  \<^verbatim>\<open>Object.keys\<close> and \<^verbatim>\<open>JSON.stringify\<close> go through the own properties of an object
  with the array indices first, in ascending order, then the other names in the order they
  were added. An array index is the decimal text, without a leading zero, of an integer
  from 0 to \<open>2^32 - 2\<close>.
\<close>

definition is_digit :: "char \<Rightarrow> bool" where
  "is_digit c = (48 \<le> (of_char c :: nat) \<and> (of_char c :: nat) \<le> 57)"

definition digits_val :: "string \<Rightarrow> int" where
  "digits_val ds = foldl (\<lambda>n c. 10 * n + (of_char c - 48)) 0 ds"

definition is_index :: "string \<Rightarrow> bool" where
  "is_index k = (k \<noteq> [] \<and> list_all is_digit k \<and> (k = ''0'' \<or> hd k \<noteq> CHR ''0'')
                 \<and> digits_val k < 4294967295)"

text \<open>The properties of a list of entries: of a repeated name, the first entry.\<close>

primrec first_entries :: "string list \<Rightarrow> (string \<times> 'a) list \<Rightarrow> (string \<times> 'a) list" where
  "first_entries seen [] = []"
| "first_entries seen (kv # kvs) =
     (if fst kv \<in> set seen then first_entries seen kvs
      else kv # first_entries (fst kv # seen) kvs)"

definition own_entries :: "(string \<times> 'a) list \<Rightarrow> (string \<times> 'a) list" where
  "own_entries kvs =
     (let es = first_entries [] kvs in
      sort_key (\<lambda>kv. digits_val (fst kv)) (filter (\<lambda>kv. is_index (fst kv)) es)
      @ filter (\<lambda>kv. \<not> is_index (fst kv)) es)"

section \<open>JSON text\<close>

definition hex_char :: "nat \<Rightarrow> char" where
  "hex_char d = (if d < 10 then char_of (48 + d) else char_of (87 + d))"

text \<open>One character of a JSON string literal, as \<^verbatim>\<open>JSON.stringify\<close> writes it.\<close>

definition escape_char :: "char \<Rightarrow> string" where
  "escape_char c =
     (if c = CHR 0x22 then [CHR 0x5C, CHR 0x22]
      else if c = CHR 0x5C then [CHR 0x5C, CHR 0x5C]
      else if c = CHR 0x08 then [CHR 0x5C, CHR ''b'']
      else if c = CHR 0x0C then [CHR 0x5C, CHR ''f'']
      else if c = CHR 0x0A then [CHR 0x5C, CHR ''n'']
      else if c = CHR 0x0D then [CHR 0x5C, CHR ''r'']
      else if c = CHR 0x09 then [CHR 0x5C, CHR ''t'']
      else if (of_char c :: nat) < 32
        then [CHR 0x5C, CHR ''u'', CHR ''0'', CHR ''0'',
              hex_char (of_char c div 16), hex_char (of_char c mod 16)]
      else [c])"

definition quote :: "string \<Rightarrow> string" where
  "quote s = CHR 0x22 # concat (map escape_char s) @ [CHR 0x22]"

text \<open>
  \<^verbatim>\<open>JSON.stringify(v)\<close>: \<open>None\<close> is the result \<^verbatim>\<open>undefined\<close>. A number is written as
  its conversion to a string, or as \<^verbatim>\<open>null\<close> where it is not finite. A property whose
  value is \<^verbatim>\<open>undefined\<close> is left out of an object, and written \<^verbatim>\<open>null\<close> in an array.
\<close>

primrec JSON_stringify :: "jsval \<Rightarrow> string option" where
  "JSON_stringify JUndefined = None"
| "JSON_stringify JNull = Some ''null''"
| "JSON_stringify (JBool b) = Some (if b then ''true'' else ''false'')"
| "JSON_stringify (JNum nonzero text) =
     Some (if text = ''Infinity'' \<or> text = ''-Infinity'' \<or> text = ''NaN'' then ''null'' else text)"
| "JSON_stringify (JStr s) = Some (quote s)"
| "JSON_stringify (JArr xs) =
     Some (''['' @ commas (map (\<lambda>r. case r of None \<Rightarrow> ''null'' | Some s \<Rightarrow> s)
                               (map JSON_stringify xs)) @ '']'')"
| "JSON_stringify (JObj kvs) =
     Some (''{'' @ commas (List.map_filter
                            (\<lambda>(k, r). map_option (\<lambda>s. quote k @ '':'' @ s) r)
                            (own_entries (map (map_prod id JSON_stringify) kvs))) @ ''}'')"

text \<open>
  \<^verbatim>\<open>JSON.parse\<close> as a recursive-descent parser. It reads the whole JSON grammar but for
  two things, whose values it does not compute: a number written with a fraction or an
  exponent, or an integer beyond \<open>2^53 - 1\<close> (they are rounded to a double), and an escape
  \<^verbatim>\<open>\uXXXX\<close> above \<^verbatim>\<open>\u007f\<close> (a UTF-16 code unit, alone or half of a pair). Reading
  ends in one of three ways: with a value and the rest of the text; at a place where the
  text is not JSON, the SyntaxError of \<^verbatim>\<open>JSON.parse\<close>; or at one of these two things,
  with the text up to there well-formed.
\<close>

datatype 'a reading = Parsed 'a string | Malformed | Outside

definition is_ws :: "char \<Rightarrow> bool" where
  "is_ws c = (c = CHR 0x20 \<or> c = CHR 0x0A \<or> c = CHR 0x0D \<or> c = CHR 0x09)"

definition skip_ws :: "string \<Rightarrow> string" where
  "skip_ws = dropWhile is_ws"

definition hex_val :: "char \<Rightarrow> nat option" where
  "hex_val c =
     (let n = (of_char c :: nat) in
      if 48 \<le> n \<and> n \<le> 57 then Some (n - 48)
      else if 97 \<le> n \<and> n \<le> 102 then Some (n - 87)
      else if 65 \<le> n \<and> n \<le> 70 then Some (n - 55)
      else None)"

definition unescape :: "char \<Rightarrow> char option" where
  "unescape e =
     (if e = CHR 0x22 then Some (CHR 0x22)
      else if e = CHR 0x5C then Some (CHR 0x5C)
      else if e = CHR ''/'' then Some (CHR ''/'')
      else if e = CHR ''b'' then Some (CHR 0x08)
      else if e = CHR ''f'' then Some (CHR 0x0C)
      else if e = CHR ''n'' then Some (CHR 0x0A)
      else if e = CHR ''r'' then Some (CHR 0x0D)
      else if e = CHR ''t'' then Some (CHR 0x09)
      else None)"

text \<open>The code unit that the four hex digits of a \<^verbatim>\<open>\u\<close> escape name.\<close>

definition hex4 :: "string \<Rightarrow> nat option" where
  "hex4 hs =
     (case map hex_val hs of
        [Some a, Some b, Some c, Some d] \<Rightarrow> Some (((16 * a + b) * 16 + c) * 16 + d)
      | _ \<Rightarrow> None)"

text \<open>The rest of a string literal after its opening quote: the string and what follows it.\<close>

fun parse_string :: "string \<Rightarrow> string reading" where
  "parse_string [] = Malformed"
| "parse_string (c # cs) =
     (if c = CHR 0x22 then Parsed [] cs
      else if c = CHR 0x5C then
        (case cs of
           [] \<Rightarrow> Malformed
         | e # rest \<Rightarrow>
             (if e = CHR ''u'' then
                (case hex4 (take 4 rest) of
                   None \<Rightarrow> Malformed
                 | Some n \<Rightarrow>
                     (if n < 128 then map_reading ((#) (char_of n)) (parse_string (drop 4 rest))
                      else Outside))
              else
                (case unescape e of
                   None \<Rightarrow> Malformed
                 | Some ch \<Rightarrow> map_reading ((#) ch) (parse_string rest))))
      else if (of_char c :: nat) < 32 then Malformed
      else map_reading ((#) c) (parse_string cs))"

text \<open>
  A number: an optional minus, then \<^verbatim>\<open>0\<close> or digits without a leading zero. A fraction
  or an exponent may follow.
\<close>

definition parse_number :: "string \<Rightarrow> jsval reading" where
  "parse_number cs =
     (let neg = (cs \<noteq> [] \<and> hd cs = CHR ''-'');
          body = (if neg then tl cs else cs);
          ds = takeWhile is_digit body;
          r = dropWhile is_digit body in
      if ds = [] then Malformed
      else if hd ds = CHR ''0'' \<and> length ds > 1 then Malformed
      else if r \<noteq> [] \<and> (hd r = CHR ''.'' \<or> hd r = CHR ''e'' \<or> hd r = CHR ''E'') then Outside
      else if 9007199254740991 < digits_val ds then Outside
      else Parsed (js_int (if neg then - digits_val ds else digits_val ds)) r)"

definition literal :: "string \<Rightarrow> jsval \<Rightarrow> string \<Rightarrow> jsval reading" where
  "literal w v cs = (if take (length w) cs = w then Parsed v (drop (length w) cs) else Malformed)"

text \<open>
  Values, array elements and object members, with a bound on the depth of the calls
  (\<open>JSON_parse\<close> below starts with more than the text can use; nothing is concluded from
  a bound used up). A repeated key of an object keeps its first place and takes the last
  value, as in JavaScript.
\<close>

fun parse_value :: "nat \<Rightarrow> string \<Rightarrow> jsval reading"
  and parse_elems :: "nat \<Rightarrow> string \<Rightarrow> jsval list reading"
  and parse_members :: "nat \<Rightarrow> string \<Rightarrow> (string \<times> jsval) list reading"
where
  "parse_value 0 cs = Outside"
| "parse_value (Suc n) cs =
     (case skip_ws cs of
        [] \<Rightarrow> Malformed
      | c # r \<Rightarrow>
          (if c = CHR ''{'' then
             (if skip_ws r \<noteq> [] \<and> hd (skip_ws r) = CHR ''}'' then Parsed (JObj []) (tl (skip_ws r))
              else map_reading (\<lambda>kvs. JObj (foldl (\<lambda>acc (k, v). obj_put acc k v) [] kvs))
                     (parse_members n r))
           else if c = CHR ''['' then
             (if skip_ws r \<noteq> [] \<and> hd (skip_ws r) = CHR '']'' then Parsed (JArr []) (tl (skip_ws r))
              else map_reading JArr (parse_elems n r))
           else if c = CHR 0x22 then map_reading JStr (parse_string r)
           else if c = CHR ''t'' then literal ''true'' (JBool True) (c # r)
           else if c = CHR ''f'' then literal ''false'' (JBool False) (c # r)
           else if c = CHR ''n'' then literal ''null'' JNull (c # r)
           else parse_number (c # r)))"
| "parse_elems 0 cs = Outside"
| "parse_elems (Suc n) cs =
     (case parse_value n cs of
        Malformed \<Rightarrow> Malformed
      | Outside \<Rightarrow> Outside
      | Parsed v r \<Rightarrow>
          (case skip_ws r of
             [] \<Rightarrow> Malformed
           | c # r' \<Rightarrow>
               (if c = CHR '','' then map_reading ((#) v) (parse_elems n r')
                else if c = CHR '']'' then Parsed [v] r'
                else Malformed)))"
| "parse_members 0 cs = Outside"
| "parse_members (Suc n) cs =
     (case skip_ws cs of
        [] \<Rightarrow> Malformed
      | q # r \<Rightarrow>
          (if q \<noteq> CHR 0x22 then Malformed
           else
             (case parse_string r of
                Malformed \<Rightarrow> Malformed
              | Outside \<Rightarrow> Outside
              | Parsed k r1 \<Rightarrow>
                  (case skip_ws r1 of
                     [] \<Rightarrow> Malformed
                   | colon # r2 \<Rightarrow>
                       (if colon \<noteq> CHR '':'' then Malformed
                        else
                          (case parse_value n r2 of
                             Malformed \<Rightarrow> Malformed
                           | Outside \<Rightarrow> Outside
                           | Parsed v r3 \<Rightarrow>
                               (case skip_ws r3 of
                                  [] \<Rightarrow> Malformed
                                | c # r4 \<Rightarrow>
                                    (if c = CHR '','' then
                                       map_reading ((#) (k, v)) (parse_members n r4)
                                     else if c = CHR ''}'' then Parsed [(k, v)] r4
                                     else Malformed))))))))"

text \<open>
  \<^verbatim>\<open>JSON.parse(s)\<close>: \<open>None\<close> is the SyntaxError. What \<^verbatim>\<open>JSON.parse\<close> makes of a text
  with a number or an escape that the parser does not evaluate is not computed here: it is
  the answer \<open>outside s\<close> of the world.
\<close>

definition JSON_parse :: "(string \<Rightarrow> jsval option) \<Rightarrow> string \<Rightarrow> jsval option" where
  "JSON_parse outside s =
     (case parse_value (2 * length s + 2) s of
        Parsed v r \<Rightarrow> (if skip_ws r = [] then Some v else None)
      | Malformed \<Rightarrow> None
      | Outside \<Rightarrow> outside s)"

section \<open>The world outside the program\<close>

text \<open>
  What the program does to the outside, in the order it does it: the lines it prints through
  the \<^verbatim>\<open>cli\<close> helper, the HTTP request it sends (URL, headers, body), the shell commands
  it hands to \<^verbatim>\<open>exec\<close>, the URL it hands to \<^verbatim>\<open>opener\<close>.
\<close>

datatype event =
    Info string
  | Ok string
  | ErrorMsg string
  | Fatal string
  | HttpPost string "(string \<times> jsval) list" string
  | Shell string
  | OpenUrl string

text \<open>
  The collaborators, as the answers they give. \<open>RNPLAY_ENV\<close> is the environment variable
  (\<open>None\<close> when unset); \<open>path_join\<close> is Node's \<^verbatim>\<open>path.join\<close>; \<open>write_error\<close> is the
  error message of \<^verbatim>\<open>fs.writeFile\<close> on a path, if it fails there; \<open>http_post\<close> answers a
  request with the error message of a failed request (no 2xx response) or with the body of
  the response; \<open>exec_error\<close> is the error message of a shell command that fails;
  \<open>info_result\<close> is what a call of \<^verbatim>\<open>cli.info\<close> returns (in the cli package the function
  has no return statement: \<^verbatim>\<open>undefined\<close>). The functions of
  \<^verbatim>\<open>utils/input\<close> are not part of the sources: \<open>maybeUsePackageName\<close>,
  \<open>readRepoNameFromCLI\<close>, \<open>readTokenFromCLI\<close> and \<open>readEmailFromCLI\<close> are the values their
  promises settle with. \<open>LOCAL_CONFIG_PATH\<close> is the path of the per-repository config file.
  \<open>package_json\<close> is what \<^verbatim>\<open>require\<close> loads from \<^verbatim>\<open>package.json\<close> in the working
  directory (\<open>None\<close> where it throws). Two answers are the language's own:
  \<open>JSON_parse_outside\<close> is the result of \<^verbatim>\<open>JSON.parse\<close> on a text with a number or an
  escape that the parser above does not evaluate (\<open>None\<close> is the SyntaxError), and
  \<open>string_entries\<close> gives the indices and the characters of a string that has characters
  outside ASCII, which JavaScript counts in UTF-16 code units.
\<close>

record env =
  RNPLAY_ENV :: "string option"
  HOMEDIR :: string
  tmp :: string
  path_join :: "string \<Rightarrow> string \<Rightarrow> string"
  LOCAL_CONFIG_PATH :: string
  write_error :: "string \<Rightarrow> string option"
  http_post :: "string \<Rightarrow> (string \<times> jsval) list \<Rightarrow> string \<Rightarrow> string + jsval"
  exec_error :: "string \<Rightarrow> string option"
  info_result :: jsval
  maybeUsePackageName :: "error + jsval"
  readRepoNameFromCLI :: "error + jsval"
  readTokenFromCLI :: "error + jsval"
  readEmailFromCLI :: "error + jsval"
  package_json :: "jsval option"
  JSON_parse_outside :: "string \<Rightarrow> jsval option"
  string_entries :: "string \<Rightarrow> (string \<times> jsval) list"

text \<open>The state the program changes: the files, and the events so far.\<close>

record state =
  files :: "string \<rightharpoonup> string"
  trace :: "event list"

definition emit :: "event \<Rightarrow> 'a state_scheme \<Rightarrow> 'a state_scheme" where
  "emit ev st = st\<lparr>trace := trace st @ [ev]\<rparr>"

text \<open>\<^verbatim>\<open>Promise.promisify(fs.writeFile)\<close> and \<^verbatim>\<open>Promise.promisify(fs.readFile)\<close>.\<close>

definition writeFileAsync :: "env \<Rightarrow> string \<Rightarrow> string \<Rightarrow> state \<Rightarrow> (error + unit) \<times> state" where
  "writeFileAsync w path contents st =
     (case write_error w path of
        Some m \<Rightarrow> (Inl (WriteError m), st)
      | None \<Rightarrow> (Inr (), st\<lparr>files := (files st)(path \<mapsto> contents)\<rparr>))"

definition readFileAsync :: "string \<Rightarrow> 'a state_scheme \<Rightarrow> error + string" where
  "readFileAsync path st =
     (case files st path of None \<Rightarrow> Inl FileNotFound | Some contents \<Rightarrow> Inr contents)"

text \<open>\<^verbatim>\<open>Promise.promisify(exec)\<close>: the command runs, the promise settles with its outcome.\<close>

definition execAsync :: "env \<Rightarrow> string \<Rightarrow> state \<Rightarrow> (error + unit) \<times> state" where
  "execAsync w cmd st =
     (case exec_error w cmd of
        Some m \<Rightarrow> (Inl (ShellCommandError m), emit (Shell cmd) st)
      | None \<Rightarrow> (Inr (), emit (Shell cmd) st))"

section \<open>The older program, \<^verbatim>\<open>rnplay-cli.js\<close>\<close>

definition CONFIG_FILE :: string where
  "CONFIG_FILE = ''.rnplay''"

definition CONFIG_FILE_PATH :: "env \<Rightarrow> string" where
  "CONFIG_FILE_PATH w = path_join w (HOMEDIR w) CONFIG_FILE"

definition RN_PLAY_APP_URL :: string where
  "RN_PLAY_APP_URL = ''https://rnplay.org/apps/''"

text \<open>
  \<^verbatim>\<open>readConfig\<close>: any failure of the read or of \<^verbatim>\<open>JSON.parse\<close> is caught and replaced by
  the one error.
\<close>

definition readConfig_legacy :: "env \<Rightarrow> 'a state_scheme \<Rightarrow> error + jsval" where
  "readConfig_legacy w st =
     (case readFileAsync (CONFIG_FILE_PATH w) st of
        Inl e \<Rightarrow> Inl ConfigMissingOrCorrupt
      | Inr contents \<Rightarrow>
          (case JSON_parse (JSON_parse_outside w) contents of
             None \<Rightarrow> Inl ConfigMissingOrCorrupt
           | Some conf \<Rightarrow> Inr conf))"

text \<open>
  \<^verbatim>\<open>saveConfig\<close> writes \<^verbatim>\<open>JSON.stringify(configData) + '\n'\<close>; the \<^verbatim>\<open>+\<close> turns the
  result \<^verbatim>\<open>undefined\<close> of \<^verbatim>\<open>JSON.stringify\<close> into the text \<^verbatim>\<open>undefined\<close>.
\<close>

definition saveConfig_legacy :: "env \<Rightarrow> jsval \<Rightarrow> state \<Rightarrow> (error + unit) \<times> state" where
  "saveConfig_legacy w configData st =
     writeFileAsync w (CONFIG_FILE_PATH w)
       ((case JSON_stringify configData of None \<Rightarrow> ''undefined'' | Some s \<Rightarrow> s) @ [CHR 0x0A]) st"

text \<open>
  \<^verbatim>\<open>utils/api\<close> of the older program. \<open>postCreateRepo_request\<close> is the call up to the
  request it builds: the log line, then the request with its body and headers (reading
  \<^verbatim>\<open>config.email\<close> and \<^verbatim>\<open>config.token\<close>). The endpoint is an argument, since the
  newer program makes its client from the environment prefix.
\<close>

definition APP_ENDPOINT :: string where
  "APP_ENDPOINT = ''https://staging.rnplay.org/apps.json''"

type_synonym request = "string \<times> (string \<times> jsval) list \<times> string"

text \<open>
  The body sent, \<^verbatim>\<open>JSON.stringify({app: {name: name, uses_git: 1}})\<close> (of an object, so
  always a string).
\<close>

definition request_body :: "jsval \<Rightarrow> string" where
  "request_body name =
     (case JSON_stringify (JObj [(''app'', JObj [(''name'', name), (''uses_git'', js_int 1)])]) of
        None \<Rightarrow> [] | Some s \<Rightarrow> s)"

definition postCreateRepo_request ::
  "string \<Rightarrow> jsval \<Rightarrow> jsval \<Rightarrow> 'a state_scheme \<Rightarrow> (error + request) \<times> 'a state_scheme" where
  "postCreateRepo_request endpoint name config st =
     (let st1 = emit (Info ''Setting up new git repo'') st;
          body = request_body name
      in case get_prop config ''email'' of
           Inl e \<Rightarrow> (Inl e, st1)
         | Inr email \<Rightarrow>
             (case get_prop config ''token'' of
                Inl e \<Rightarrow> (Inl e, st1)
              | Inr token \<Rightarrow>
                  (let headers = [(''Content-Type'', JStr ''application/json''),
                                  (''X-User-Email'', email), (''X-User-Token'', token)]
                   in (Inr (endpoint, headers, body),
                       emit (HttpPost endpoint headers body) st1))))"

text \<open>
  The promise of the request: rejected with the error of a failed request, else fulfilled
  with the response, of which the caller takes \<^verbatim>\<open>body.url_token\<close>.
\<close>

definition url_token_of_response :: "env \<Rightarrow> request \<Rightarrow> error + jsval" where
  "url_token_of_response w req =
     (case req of (url, headers, body) \<Rightarrow>
        (case http_post w url headers body of
           Inl m \<Rightarrow> Inl (RemoteApiError m)
         | Inr response_body \<Rightarrow> get_prop response_body ''url_token''))"

definition makeURLToken_at ::
  "string \<Rightarrow> env \<Rightarrow> jsval \<Rightarrow> jsval \<Rightarrow> 'a state_scheme \<Rightarrow> (error + jsval) \<times> 'a state_scheme" where
  "makeURLToken_at endpoint w name config st =
     (case postCreateRepo_request endpoint name config st of
        (Inl e, st1) \<Rightarrow> (Inl e, st1)
      | (Inr req, st1) \<Rightarrow> (url_token_of_response w req, st1))"

text \<open>\<^verbatim>\<open>o.k = v\<close> in strict mode.\<close>

fun set_prop :: "jsval \<Rightarrow> string \<Rightarrow> jsval \<Rightarrow> error + jsval" where
  "set_prop (JObj kvs) k v = Inr (JObj (obj_put kvs k v))"
| "set_prop (JArr xs) k v = Inr (JArr xs)"
| "set_prop c k v = Inl TypeError"

text \<open>\<^verbatim>\<open>createConfig\<close>, the authenticate action.\<close>

definition createConfig_legacy :: "env \<Rightarrow> state \<Rightarrow> (error + unit) \<times> state" where
  "createConfig_legacy w st =
     (case readTokenFromCLI w of
        Inl e \<Rightarrow> (Inl e, st)
      | Inr token \<Rightarrow>
          (case readEmailFromCLI w of
             Inl e \<Rightarrow> (Inl e, st)
           | Inr email \<Rightarrow>
               (case saveConfig_legacy w (JObj [(''token'', token), (''email'', email)]) st of
                  (Inl e, st1) \<Rightarrow> (Inl e, st1)
                | (Inr u, st1) \<Rightarrow> (Inr (), emit (Ok ''Saved config to ~/.rnplay'') st1))))"

text \<open>
  \<^verbatim>\<open>createGitRepo\<close> of the older program. The url token is stored in the one config file,
  as a property of the config object.
\<close>

definition check_legacy :: "jsval \<Rightarrow> error + jsval" where
  "check_legacy conf =
     (case get_prop conf ''email'' of
        Inl e \<Rightarrow> Inl e
      | Inr email \<Rightarrow>
          (if \<not> truthy email then Inl InvalidConfig
           else (case get_prop conf ''token'' of
                   Inl e \<Rightarrow> Inl e
                 | Inr token \<Rightarrow> (if \<not> truthy token then Inl InvalidConfig else Inr conf))))"

definition git_url_legacy :: "jsval \<Rightarrow> jsval \<Rightarrow> error + string" where
  "git_url_legacy config urlToken =
     (case get_prop config ''token'' of
        Inl e \<Rightarrow> Inl e
      | Inr token \<Rightarrow>
          (case ToString token of
             Inl e \<Rightarrow> Inl e
           | Inr t \<Rightarrow>
               (case ToString urlToken of
                  Inl e \<Rightarrow> Inl e
                | Inr u \<Rightarrow> Inr (''https://'' @ t @ '':@git.rnplay.org:jsierles/'' @ u @ ''.git''))))"

definition createGitRepo_legacy :: "env \<Rightarrow> state \<Rightarrow> (error + unit) \<times> state" where
  "createGitRepo_legacy w st =
     (case readConfig_legacy w st of
        Inl e \<Rightarrow> (Inl e, st)
      | Inr conf \<Rightarrow>
      (case check_legacy conf of
        Inl e \<Rightarrow> (Inl e, st)
      | Inr config \<Rightarrow>
      (case maybeUsePackageName w of
        Inl e \<Rightarrow> (Inl e, st)
      | Inr pkg_name \<Rightarrow>
      (case (if truthy pkg_name then Inr pkg_name else readRepoNameFromCLI w) of
        Inl e \<Rightarrow> (Inl e, st)
      | Inr name \<Rightarrow>
      (case makeURLToken_at APP_ENDPOINT w name config st of
        (Inl e, st1) \<Rightarrow> (Inl e, st1)
      | (Inr urlToken, st1) \<Rightarrow>
      (case set_prop config ''urlToken'' urlToken of
        Inl e \<Rightarrow> (Inl e, st1)
      | Inr config' \<Rightarrow>
      (case saveConfig_legacy w config' st1 of
        (Inl e, st2) \<Rightarrow> (Inl e, st2)
      | (Inr u, st2) \<Rightarrow>
      (let st3 = emit (Info ''Adding git remote'') st2;
           remoteName = ''rnplay''
       in case git_url_legacy config' urlToken of
            Inl e \<Rightarrow> (Inl e, st3)
          | Inr url \<Rightarrow>
          (case execAsync w (''git remote add '' @ remoteName @ '' '' @ url) st3 of
             (Inl e, st4) \<Rightarrow> (Inl e, st4)
           | (Inr u', st4) \<Rightarrow>
               (Inr (),
                emit (Ok ''You can use  `rnplay-cli --open` to open this application on rnplay.org'')
                 (emit (Ok ''All done! Use `git push rnplay master` to push your application.'')
                   (emit (Ok (''Added remote with name `'' @ remoteName @ '' and url: `'' @ url @ ''`''))
                      st4))))))))))))"


section \<open>The newer program, \<^verbatim>\<open>src/index.js\<close>\<close>

definition PREFIX :: "env \<Rightarrow> string" where
  "PREFIX w = (case RNPLAY_ENV w of None \<Rightarrow> [] | Some v \<Rightarrow> (if v \<noteq> [] then v @ ''.'' else []))"

definition RNPLAY_APP_URL :: "env \<Rightarrow> string" where
  "RNPLAY_APP_URL w = ''https://'' @ PREFIX w @ ''rnplay.org/apps/''"

text \<open>
  Modelled from the spec: \<^verbatim>\<open>createApi\<close> of \<^verbatim>\<open>utils/api\<close>, which the newer program
  imports and the sources lack. The spec has the client post to \<^verbatim>\<open>{baseUrl}/apps.json\<close> and
  the environment name prefix the hostname of the service; the client is the
  \<^verbatim>\<open>postCreateRepo\<close> above at the endpoint given here.
\<close>

definition createApi :: "string \<Rightarrow> string" where
  "createApi pre = ''https://'' @ pre @ ''rnplay.org/apps.json''"

text \<open>
  Modelled from the spec: \<^verbatim>\<open>utils/config\<close>, which the newer program imports and the
  sources lack. The spec gives \<^verbatim>\<open>readConfig\<close> the contract of the older program's (an
  absent file or invalid JSON is \<open>ConfigMissingOrCorrupt\<close>), on the same file; it has
  \<^verbatim>\<open>saveConfig\<close> write the JSON text over the file; and it gives the local pair the same
  contract on the file of the working directory.
\<close>

definition readConfig :: "env \<Rightarrow> 'a state_scheme \<Rightarrow> error + jsval" where
  "readConfig w st = readConfig_legacy w st"

definition saveConfig :: "env \<Rightarrow> jsval \<Rightarrow> state \<Rightarrow> (error + unit) \<times> state" where
  "saveConfig w cfg st =
     writeFileAsync w (CONFIG_FILE_PATH w)
       (case JSON_stringify cfg of None \<Rightarrow> ''undefined'' | Some s \<Rightarrow> s) st"

definition readLocalConfig :: "env \<Rightarrow> 'a state_scheme \<Rightarrow> error + jsval" where
  "readLocalConfig w st =
     (case readFileAsync (LOCAL_CONFIG_PATH w) st of
        Inl e \<Rightarrow> Inl ConfigMissingOrCorrupt
      | Inr contents \<Rightarrow>
          (case JSON_parse (JSON_parse_outside w) contents of
             None \<Rightarrow> Inl ConfigMissingOrCorrupt
           | Some conf \<Rightarrow> Inr conf))"

definition saveLocalConfig :: "env \<Rightarrow> jsval \<Rightarrow> state \<Rightarrow> (error + unit) \<times> state" where
  "saveLocalConfig w cfg st =
     writeFileAsync w (LOCAL_CONFIG_PATH w)
       (case JSON_stringify cfg of None \<Rightarrow> ''undefined'' | Some s \<Rightarrow> s) st"

definition createConfig :: "env \<Rightarrow> state \<Rightarrow> (error + unit) \<times> state" where
  "createConfig w st =
     (case readTokenFromCLI w of
        Inl e \<Rightarrow> (Inl e, st)
      | Inr token \<Rightarrow>
          (case readEmailFromCLI w of
             Inl e \<Rightarrow> (Inl e, st)
           | Inr email \<Rightarrow>
               (case saveConfig w (JObj [(''token'', token), (''email'', email)]) st of
                  (Inl e, st1) \<Rightarrow> (Inl e, st1)
                | (Inr u, st1) \<Rightarrow> (Inr (), emit (Ok ''Saved config to ~/.rnplay'') st1))))"

definition checkConfig :: "jsval \<Rightarrow> error + jsval" where
  "checkConfig conf =
     (case get_prop conf ''email'' of
        Inl e \<Rightarrow> Inl e
      | Inr email \<Rightarrow>
          (if \<not> truthy email then Inl InvalidConfig
           else (case get_prop conf ''token'' of
                   Inl e \<Rightarrow> Inl e
                 | Inr token \<Rightarrow> (if \<not> truthy token then Inl InvalidConfig else Inr conf))))"

definition makeURLToken ::
  "env \<Rightarrow> jsval \<Rightarrow> jsval \<Rightarrow> 'a state_scheme \<Rightarrow> (error + jsval) \<times> 'a state_scheme" where
  "makeURLToken w name config st = makeURLToken_at (createApi (PREFIX w)) w name config st"

definition getConfig :: "env \<Rightarrow> 'a state_scheme \<Rightarrow> error + jsval" where
  "getConfig w st = (case readConfig w st of Inl e \<Rightarrow> Inl e | Inr conf \<Rightarrow> checkConfig conf)"

definition formatCommand :: "jsval \<Rightarrow> jsval \<Rightarrow> error + string" where
  "formatCommand urlToken config =
     (let remoteName = ''rnplay'' in
      case get_prop config ''token'' of
        Inl e \<Rightarrow> Inl e
      | Inr token \<Rightarrow>
          (case ToString token of
             Inl e \<Rightarrow> Inl e
           | Inr t \<Rightarrow>
               (case ToString urlToken of
                  Inl e \<Rightarrow> Inl e
                | Inr u \<Rightarrow>
                    (let url = ''https://'' @ t @ '':@git.rnplay.org/'' @ u @ ''.git''
                     in Inr (''git remote add '' @ remoteName @ '' '' @ url)))))"

definition getAddRemoteCommand ::
  "env \<Rightarrow> jsval \<Rightarrow> 'a state_scheme \<Rightarrow> (error + string) \<times> 'a state_scheme" where
  "getAddRemoteCommand w name st =
     (case getConfig w st of
        Inl e \<Rightarrow> (Inl e, st)
      | Inr config \<Rightarrow>
          (case makeURLToken w name config st of
             (Inl e, st1) \<Rightarrow> (Inl e, st1)
           | (Inr token, st1) \<Rightarrow> (formatCommand token config, st1)))"

text \<open>
  \<^verbatim>\<open>createGitRepo\<close>. The handler after \<^verbatim>\<open>execAsync(cmd)\<close> evaluates the array
  \<^verbatim>\<open>[remoteName, url]\<close>, but \<^verbatim>\<open>remoteName\<close> and \<^verbatim>\<open>url\<close> are variables of \<^verbatim>\<open>formatCommand\<close>
  and are bound nowhere in \<^verbatim>\<open>createGitRepo\<close> or at the top of the module: reading the first
  throws a ReferenceError, which rejects the promise. \<open>added_remote\<close> is that expression,
  \<open>report_added\<close> the handler that \<^verbatim>\<open>spread\<close> would call with its value.
\<close>

definition added_remote :: "error + string \<times> string" where
  "added_remote = Inl (ReferenceError ''remoteName'')"

definition report_added :: "string \<Rightarrow> string \<Rightarrow> state \<Rightarrow> state" where
  "report_added remoteName url st =
     emit (Ok ''You can use `rnplay --open` to open this application on rnplay.org'')
      (emit (Ok ''All done! Use `git push rnplay master` to push your application.'')
        (emit (Ok (''Added remote with name `'' @ remoteName @ ''` and url: `'' @ url @ ''`'')) st))"

definition createGitRepo :: "env \<Rightarrow> state \<Rightarrow> (error + unit) \<times> state" where
  "createGitRepo w st =
     (case getConfig w st of
        Inl e \<Rightarrow> (Inl e, st)
      | Inr config \<Rightarrow>
      (case maybeUsePackageName w of
        Inl e \<Rightarrow> (Inl e, st)
      | Inr pkg_name \<Rightarrow>
      (case (if truthy pkg_name then Inr pkg_name else readRepoNameFromCLI w) of
        Inl e \<Rightarrow> (Inl e, st)
      | Inr name \<Rightarrow>
      (case makeURLToken w name config st of
        (Inl e, st1) \<Rightarrow> (Inl e, st1)
      | (Inr urlToken, st1) \<Rightarrow>
      (case saveLocalConfig w (JObj [(''urlToken'', urlToken)]) st1 of
        (Inl e, st2) \<Rightarrow> (Inl e, st2)
      | (Inr u, st2) \<Rightarrow>
      (let st3 = emit (Info ''Adding git remote'') st2
       in case formatCommand urlToken config of
            Inl e \<Rightarrow> (Inl e, st3)
          | Inr cmd \<Rightarrow>
          (case execAsync w cmd st3 of
             (Inl e, st4) \<Rightarrow> (Inl e, st4)
           | (Inr u', st4) \<Rightarrow>
               (case added_remote of
                  Inl e \<Rightarrow> (Inl e, st4)
                | Inr (remoteName, url) \<Rightarrow> (Inr (), report_added remoteName url st4)))))))))"

definition openAppInBrowser :: "env \<Rightarrow> state \<Rightarrow> (error + unit) \<times> state" where
  "openAppInBrowser w st =
     (case readLocalConfig w st of
        Inl e \<Rightarrow> (Inl e, st)
      | Inr localConfig \<Rightarrow>
          (case get_prop localConfig ''urlToken'' of
             Inl e \<Rightarrow> (Inl e, st)
           | Inr urlToken \<Rightarrow>
               (if \<not> truthy urlToken then
                  (Inr (), emit (ErrorMsg ''You have to create an application using `rnplay --create` first'') st)
                else
                  (case ToString urlToken of
                     Inl e \<Rightarrow> (Inl e, st)
                   | Inr t \<Rightarrow> (Inr (), emit (OpenUrl (RNPLAY_APP_URL w @ t)) st)))))"

section \<open>The split action\<close>

text \<open>\<^verbatim>\<open>getPackageConfig\<close> and \<^verbatim>\<open>processRNPlayConfig\<close> (the two unnamed source files).\<close>

definition getPackageConfig :: "env \<Rightarrow> error + jsval" where
  "getPackageConfig w = (case package_json w of None \<Rightarrow> Inl ModuleNotFound | Some config \<Rightarrow> Inr config)"

definition processRNPlayConfig :: "env \<Rightarrow> 'a state_scheme \<Rightarrow> (error + jsval) \<times> 'a state_scheme" where
  "processRNPlayConfig w st =
     (case getPackageConfig w of
        Inl e \<Rightarrow> (Inl e, st)
      | Inr pkg \<Rightarrow>
          (case get_prop pkg ''rnplay'' of
             Inl e \<Rightarrow> (Inl e, st)
           | Inr config \<Rightarrow>
               (if \<not> truthy config then
                  (Inr (JBool False),
                   emit (Fatal ''No rnplay config found. Make sure you have rnplay config in your package.json'') st)
                else (Inr config, st))))"

text \<open>
  \<^verbatim>\<open>Object.keys(config)\<close> paired with \<^verbatim>\<open>config[key]\<close>: the own properties of an object
  in the order of \<^verbatim>\<open>Object.keys\<close>, the indices of an array or of a string, nothing for a
  number or a boolean, a TypeError for \<^verbatim>\<open>undefined\<close> and \<^verbatim>\<open>null\<close>. The first argument
  answers for a string with characters outside ASCII (\<open>string_entries\<close> of the world).
\<close>

fun entries_of :: "(string \<Rightarrow> (string \<times> jsval) list) \<Rightarrow> jsval \<Rightarrow> error + (string \<times> jsval) list" where
  "entries_of wide JUndefined = Inl TypeError"
| "entries_of wide JNull = Inl TypeError"
| "entries_of wide (JObj kvs) = Inr (own_entries kvs)"
| "entries_of wide (JArr xs) = Inr (zip (map show_nat [0..<length xs]) xs)"
| "entries_of wide (JStr s) =
     (if list_all (\<lambda>c. (of_char c :: nat) < 128) s
      then Inr (zip (map show_nat [0..<length s]) (map (\<lambda>c. JStr [c]) s))
      else Inr (wide s))"
| "entries_of wide v = Inr []"

text \<open>
  \<^verbatim>\<open>splitByConfig\<close> starts one chain of promises per entry and returns at once; the chains
  then advance as their commands, file reads and requests complete, in any order. A chain
  is at one of these points: its \<^verbatim>\<open>cp\<close> is running; the config file is being read; the
  request is on its way (with the config and the request); it is through; it was rejected.
\<close>

datatype branch =
    AwaitCopy
  | AwaitConfig
  | AwaitApi jsval request
  | Finished
  | Failed error

datatype promise_state = Pending | Resolved | Rejected error

record job =
  project :: string
  target :: string
  copy_cmd :: string

text \<open>
  The state of a split: the files and events, the entries started (\<open>jobs\<close>, by index) and
  where the chain of each is, \<^verbatim>\<open>folders.length\<close>, the promise \<^verbatim>\<open>splitByConfig\<close> returned,
  and the error last thrown out of a \<^verbatim>\<open>done\<close>, if any: \<^verbatim>\<open>done\<close> throws the rejection of
  its chain, which nothing catches.
\<close>

record split_state = state +
  jobs :: "job list"
  branches :: "branch list"
  folders_length :: nat
  promise :: promise_state
  uncaught :: "error option"

text \<open>
  The body of \<^verbatim>\<open>forEach\<close>, run for every entry in order before anything completes: log,
  build the \<^verbatim>\<open>cp\<close> command, start it. An exception of the body leaves the loop and the
  executor, and rejects the promise.
\<close>

fun forEach_launch :: "env \<Rightarrow> (string \<times> jsval) list \<Rightarrow> split_state \<Rightarrow> split_state" where
  "forEach_launch w [] s = s"
| "forEach_launch w ((proj, dir) # rest) s =
     (let tgt = path_join w (tmp w) proj;
          s1 = emit (Info (''Adding git remote for '' @ proj)) s
      in case ToString dir of
           Inl e \<Rightarrow> s1\<lparr>promise := Rejected e\<rparr>
         | Inr d \<Rightarrow>
             (let cmd = ''cp -r '' @ d @ '' '' @ tgt;
                  s2 = emit (Shell cmd) s1
              in forEach_launch w rest
                   (s2\<lparr>jobs := jobs s2 @ [\<lparr>project = proj, target = tgt, copy_cmd = cmd\<rparr>],
                       branches := branches s2 @ [AwaitCopy]\<rparr>)))"

definition split_init :: "state \<Rightarrow> split_state" where
  "split_init st = state.extend st
     \<lparr>jobs = [], branches = [], folders_length = 0, promise = Pending, uncaught = None\<rparr>"

text \<open>The executor of the promise: what \<^verbatim>\<open>splitByConfig\<close> does before it returns.\<close>

definition split_start :: "env \<Rightarrow> state \<Rightarrow> split_state" where
  "split_start w st =
     (case processRNPlayConfig w (split_init st) of
        (Inl e, s) \<Rightarrow> s\<lparr>promise := Rejected e\<rparr>
      | (Inr config, s) \<Rightarrow>
          (case entries_of (string_entries w) config of
             Inl e \<Rightarrow> s\<lparr>promise := Rejected e\<rparr>
           | Inr folders \<Rightarrow> forEach_launch w folders (s\<lparr>folders_length := length folders\<rparr>)))"

text \<open>\<^verbatim>\<open>resolve()\<close> settles a pending promise and does nothing to a settled one.\<close>

definition resolve :: "split_state \<Rightarrow> split_state" where
  "resolve s = (if promise s = Pending then s\<lparr>promise := Resolved\<rparr> else s)"

text \<open>
  The handler given to \<^verbatim>\<open>done\<close>, called when the chain of entry \<open>i\<close> is fulfilled. For the
  last index it is \<^verbatim>\<open>cli.info(...) && resolve()\<close>: \<^verbatim>\<open>resolve\<close> is called if what
  \<^verbatim>\<open>cli.info\<close> returned is truthy. For another index it logs
  \<^verbatim>\<open>index + ' of ' + folders.length - 1\<close>, a string minus one: \<^verbatim>\<open>NaN\<close>.
\<close>

definition done_callback :: "env \<Rightarrow> nat \<Rightarrow> split_state \<Rightarrow> split_state" where
  "done_callback w i s =
     (if Suc i = folders_length s then
        (let s1 = emit (Info (''Done setup for '' @ target (jobs s ! i))) s
         in if truthy (info_result w) then resolve s1 else s1)
      else emit (Info ''NaN'') s)"

definition fail_branch :: "nat \<Rightarrow> error \<Rightarrow> split_state \<Rightarrow> split_state" where
  "fail_branch i e s = s\<lparr>branches := (branches s)[i := Failed e], uncaught := Some e\<rparr>"

text \<open>
  One completion in the chain of entry \<open>i\<close>: the \<^verbatim>\<open>cp\<close> has ended (then
  \<^verbatim>\<open>getAddRemoteCommand\<close> starts reading the config); the config has been read (it is
  checked and the request is sent); the response has arrived (the command is formatted and
  handed to \<^verbatim>\<open>exec\<close>, whose result nothing waits for, and the \<^verbatim>\<open>done\<close> handler runs).
\<close>

definition branch_step :: "env \<Rightarrow> nat \<Rightarrow> split_state \<Rightarrow> split_state" where
  "branch_step w i s =
     (case branches s ! i of
        AwaitCopy \<Rightarrow>
          (case exec_error w (copy_cmd (jobs s ! i)) of
             Some m \<Rightarrow> fail_branch i (ShellCommandError m) s
           | None \<Rightarrow> s\<lparr>branches := (branches s)[i := AwaitConfig]\<rparr>)
      | AwaitConfig \<Rightarrow>
          (case getConfig w s of
             Inl e \<Rightarrow> fail_branch i e s
           | Inr config \<Rightarrow>
               (case postCreateRepo_request (createApi (PREFIX w)) (JStr (project (jobs s ! i))) config s of
                  (Inl e, s1) \<Rightarrow> fail_branch i e s1
                | (Inr req, s1) \<Rightarrow> s1\<lparr>branches := (branches s1)[i := AwaitApi config req]\<rparr>))
      | AwaitApi config req \<Rightarrow>
          (case url_token_of_response w req of
             Inl e \<Rightarrow> fail_branch i e s
           | Inr token \<Rightarrow>
               (case formatCommand token config of
                  Inl e \<Rightarrow> fail_branch i e s
                | Inr cmd \<Rightarrow>
                    (let s1 = emit (Shell (''cd '' @ target (jobs s ! i) @ '' && git init && '' @ cmd)) s
                     in done_callback w i (s1\<lparr>branches := (branches s1)[i := Finished]\<rparr>))))
      | Finished \<Rightarrow> s
      | Failed e \<Rightarrow> s)"

text \<open>
  A schedule names, completion by completion, the entry whose chain advances; an index
  without a chain advances nothing. Node ends the process when the exception thrown out
  of \<^verbatim>\<open>done\<close> reaches it: such a run is a schedule that stops there.
\<close>

definition split_step :: "env \<Rightarrow> split_state \<Rightarrow> nat \<Rightarrow> split_state" where
  "split_step w s i = (if i < length (branches s) then branch_step w i s else s)"

text \<open>
  \<^verbatim>\<open>splitByConfig\<close>, by the state it has brought about when the completions of the
  schedule have happened; \<open>promise\<close> of it is the state of the promise it returned.
\<close>

definition splitByConfig :: "env \<Rightarrow> state \<Rightarrow> nat list \<Rightarrow> split_state" where
  "splitByConfig w st schedule = foldl (split_step w) (split_start w st) schedule"

section \<open>Worlds to run the program in\<close>

text \<open>
  In \<open>demo_env\<close> every collaborator succeeds, and \<^verbatim>\<open>cli.info\<close> returns \<^verbatim>\<open>undefined\<close>.
  No text that is parsed in the runs below and no string whose indices are taken has a
  number or a character that \<open>JSON_parse_outside\<close> or \<open>string_entries\<close> would be asked
  about.
\<close>

definition demo_env :: env where
  "demo_env =
     \<lparr> RNPLAY_ENV = None, HOMEDIR = ''/home/u'', tmp = ''/tmp'',
       path_join = (\<lambda>a b. a @ ''/'' @ b), LOCAL_CONFIG_PATH = ''/work/.rnplay'',
       write_error = (\<lambda>p. None),
       http_post = (\<lambda>url hs body. Inr (JObj [(''url_token'', JStr ''abc123'')])),
       exec_error = (\<lambda>cmd. None), info_result = JUndefined,
       maybeUsePackageName = Inr (JStr ''demo''), readRepoNameFromCLI = Inr (JStr ''typed''),
       readTokenFromCLI = Inr (JStr ''t''), readEmailFromCLI = Inr (JStr ''e''),
       package_json = Some (JObj [(''name'', JStr ''demo''),
                                  (''rnplay'', JObj [(''one'', JStr ''./one'')])]),
       JSON_parse_outside = (\<lambda>text. None), string_entries = (\<lambda>s. []) \<rparr>"

text \<open>
  Worlds for the split action: one where no command \<^verbatim>\<open>cd ... && git init && ...\<close> succeeds;
  one where moreover \<^verbatim>\<open>cli.info\<close> returns \<^verbatim>\<open>true\<close>; one whose manifest has the entries
  \<^verbatim>\<open>a\<close> and \<^verbatim>\<open>1\<close>, written in this order, where the \<^verbatim>\<open>cp\<close> of \<^verbatim>\<open>a\<close> fails and
  \<^verbatim>\<open>cli.info\<close> returns \<^verbatim>\<open>true\<close>; one whose manifest has an empty \<^verbatim>\<open>rnplay\<close> object.
\<close>

definition git_fails_env :: env where
  "git_fails_env =
     demo_env\<lparr> exec_error := (\<lambda>cmd. if take 3 cmd = ''cd '' then Some ''fatal: not a git repository''
                                     else None) \<rparr>"



definition no_entries_env :: env where
  "no_entries_env = demo_env\<lparr> package_json := Some (JObj [(''rnplay'', JObj [])]) \<rparr>"


text \<open>States for the open action: the local config file holds the given text.\<close>

definition local_state :: "string \<Rightarrow> state" where
  "local_state contents = \<lparr> files = [LOCAL_CONFIG_PATH demo_env \<mapsto> contents], trace = [] \<rparr>"

definition empty_state :: state where
  "empty_state = \<lparr> files = Map.empty, trace = [] \<rparr>"

text \<open>A state whose global config file holds a valid config.\<close>

definition config_text :: string where
  "config_text = ''{'' @ quote ''token'' @ '':'' @ quote ''t'' @ '','' @ quote ''email'' @ '':'' @ quote ''e'' @ ''}''"

definition authed_state :: state where
  "authed_state = \<lparr> files = [CONFIG_FILE_PATH demo_env \<mapsto> config_text], trace = [] \<rparr>"

section \<open>The statements of the specification\<close>

text \<open>
  The shape the specification gives the git remote URL,
  \<^verbatim>\<open>https://<token>:@git.<baseHost>/<urlToken>.git\<close>, and the host of the service.
\<close>

definition spec_git_remote_url :: "string \<Rightarrow> string \<Rightarrow> string \<Rightarrow> string" where
  "spec_git_remote_url token_text baseHost urlToken_text =
     ''https://'' @ token_text @ '':@git.'' @ baseHost @ ''/'' @ urlToken_text @ ''.git''"

definition baseHost :: string where
  "baseHost = ''rnplay.org''"

text \<open>
  The URLs as the specification has them: the environment name, when set, followed by a
  dot in front of the hostname of every API and web URL; nothing in front of it when unset.
\<close>

definition spec_prefix :: "string option \<Rightarrow> string" where
  "spec_prefix environment = (case environment of None \<Rightarrow> [] | Some v \<Rightarrow> v @ ''.'')"

definition spec_web_url :: "string option \<Rightarrow> string" where
  "spec_web_url environment = ''https://'' @ spec_prefix environment @ baseHost @ ''/apps/''"

definition spec_api_url :: "string option \<Rightarrow> string" where
  "spec_api_url environment = ''https://'' @ spec_prefix environment @ baseHost @ ''/apps.json''"






text \<open>
  Where the global config cannot be read, or fails the check, with the error \<open>e\<close>: the
  chain of an entry after \<open>k\<close> of its completions. Its copy is running; then it was
  rejected by a copy that failed, or it reads the config; then it was rejected, by the copy
  or with \<open>e\<close>.
\<close>

definition chain_after :: "env \<Rightarrow> error \<Rightarrow> job \<Rightarrow> nat \<Rightarrow> branch" where
  "chain_after w e j k =
     (if k = 0 then AwaitCopy
      else case exec_error w (copy_cmd j) of
             Some m \<Rightarrow> Failed (ShellCommandError m)
           | None \<Rightarrow> (if k = 1 then AwaitConfig else Failed e))"

text \<open>
  The events of a split before anything completes: log lines and \<^verbatim>\<open>cp -r\<close> commands.
\<close>

fun launch_event :: "event \<Rightarrow> bool" where
  "launch_event (Info m) = True"
| "launch_event (Fatal m) = True"
| "launch_event (Shell cmd) = (take 6 cmd = ''cp -r '')"
| "launch_event ev = False"

text \<open>A chain that has not sent its request: it waits for its copy or for the config, or was rejected.\<close>

fun unsent :: "branch \<Rightarrow> bool" where
  "unsent AwaitCopy = True"
| "unsent AwaitConfig = True"
| "unsent (Failed e) = True"
| "unsent b = False"

text \<open>A resolved promise: the chain of the last entry is through, and \<^verbatim>\<open>cli.info\<close> returned a truthy value.\<close>

definition resolved_by_last :: "env \<Rightarrow> split_state \<Rightarrow> bool" where
  "resolved_by_last w s =
     (promise s \<noteq> Resolved \<or>
      (truthy (info_result w) \<and> 0 < folders_length s \<and> folders_length s \<le> length (branches s)
       \<and> branches s ! (folders_length s - 1) = Finished))"

section \<open>The config file of the older program\<close>

lemma parse_saved_token_email:
  "JSON_parse outside ((case JSON_stringify (JObj [(''token'', JStr ''t''), (''email'', JStr ''e'')]) of
                  None \<Rightarrow> ''undefined'' | Some s \<Rightarrow> s) @ [CHR 0x0A])
   = Some (JObj [(''token'', JStr ''t''), (''email'', JStr ''e'')])"
  by code_simp

text \<open>
  C9. Where the config file can be written, saving the config object
  \<^verbatim>\<open>{token:"t", email:"e"}\<close> with \<open>saveConfig\<close> succeeds, and \<open>readConfig\<close> on the state it
  leaves yields exactly that object.
\<close>

theorem save_then_read_config:
  assumes "write_error w (CONFIG_FILE_PATH w) = None"
  shows "fst (saveConfig_legacy w (JObj [(''token'', JStr ''t''), (''email'', JStr ''e'')]) st) = Inr ()
       \<and> readConfig_legacy w
           (snd (saveConfig_legacy w (JObj [(''token'', JStr ''t''), (''email'', JStr ''e'')]) st))
         = Inr (JObj [(''token'', JStr ''t''), (''email'', JStr ''e'')])"
proof -
  let ?cfg = "JObj [(''token'', JStr ''t''), (''email'', JStr ''e'')]"
  let ?text = "(case JSON_stringify ?cfg of None \<Rightarrow> ''undefined'' | Some s \<Rightarrow> s) @ [CHR 0x0A]"
  have saved: "saveConfig_legacy w ?cfg st
      = (Inr (), st\<lparr>files := (files st)(CONFIG_FILE_PATH w \<mapsto> ?text)\<rparr>)"
    using assms unfolding saveConfig_legacy_def writeFileAsync_def by simp
  have "readConfig_legacy w (st\<lparr>files := (files st)(CONFIG_FILE_PATH w \<mapsto> ?text)\<rparr>) = Inr ?cfg"
    unfolding readConfig_legacy_def readFileAsync_def
    using parse_saved_token_email by simp
  with saved show ?thesis by simp
qed

theorem save_then_read_config_witness:
  "write_error demo_env (CONFIG_FILE_PATH demo_env) = None
   \<and> fst (saveConfig_legacy demo_env (JObj [(''token'', JStr ''t''), (''email'', JStr ''e'')])
            empty_state) = Inr ()
   \<and> readConfig_legacy demo_env
       (snd (saveConfig_legacy demo_env (JObj [(''token'', JStr ''t''), (''email'', JStr ''e'')])
               empty_state))
     = Inr (JObj [(''token'', JStr ''t''), (''email'', JStr ''e'')])"
proof -
  have h: "write_error demo_env (CONFIG_FILE_PATH demo_env) = None"
    by (simp add: demo_env_def)
  show ?thesis
    using h save_then_read_config [OF h, of empty_state] by simp
qed

section \<open>The create action\<close>

lemma readConfig_authed:
  "readConfig demo_env authed_state = Inr (JObj [(''token'', JStr ''t''), (''email'', JStr ''e'')])"
  by code_simp

lemma request_body_demo:
  "request_body (JStr ''demo'') =
     ''{'' @ quote ''app'' @ '':{'' @ quote ''name'' @ '':'' @ quote ''demo'' @ '','' @ quote ''uses_git'' @ '':1}}''"
  by code_simp

lemma request_body_names_demo:
  "sublist (quote ''name'' @ '':'' @ quote ''demo'') (request_body (JStr ''demo''))"
  unfolding request_body_demo sublist_def
  by (rule exI [of _ "''{'' @ quote ''app'' @ '':{''"], rule exI [of _ "'','' @ quote ''uses_git'' @ '':1}}''"]) simp

text \<open>
  What \<^verbatim>\<open>JSON.stringify\<close> writes for a string, \<^verbatim>\<open>JSON.parse\<close> reads back as that string;
  so too for an object with one string property.
\<close>

lemma hex_val_hex_char: "d < 16 \<Longrightarrow> hex_val (hex_char d) = Some d"
  by (auto simp: hex_val_def hex_char_def Let_def)

lemma unescape_escape:
  "parse_string (escape_char c @ rest) = map_reading ((#) c) (parse_string rest)"
proof -
  consider (quote) "c = CHR 0x22" | (backslash) "c = CHR 0x5C" | (b) "c = CHR 0x08"
    | (f) "c = CHR 0x0C" | (n) "c = CHR 0x0A" | (r) "c = CHR 0x0D" | (t) "c = CHR 0x09"
    | (control) "c \<notin> {CHR 0x22, CHR 0x5C, CHR 0x08, CHR 0x0C, CHR 0x0A, CHR 0x0D, CHR 0x09}"
        "(of_char c :: nat) < 32"
    | (plain) "c \<notin> {CHR 0x22, CHR 0x5C}" "\<not> (of_char c :: nat) < 32"
    by auto
  then show ?thesis
  proof cases
    case control
    let ?n = "of_char c :: nat"
    have digits: "hex_val (hex_char (?n div 16)) = Some (?n div 16)"
      "hex_val (hex_char (?n mod 16)) = Some (?n mod 16)" "hex_val CHR ''0'' = Some 0"
      using control(2) by (simp_all add: hex_val_hex_char) (simp add: hex_val_def)
    have "hex4 [CHR ''0'', CHR ''0'', hex_char (?n div 16), hex_char (?n mod 16)] = Some ?n"
      using digits by (simp add: hex4_def)
    with control show ?thesis
      by (simp add: escape_char_def)
  qed (simp_all add: escape_char_def unescape_def)
qed

lemma parse_string_quoted:
  "parse_string (concat (map escape_char s) @ CHR 0x22 # rest) = Parsed s rest"
  by (induction s) (simp_all add: unescape_escape del: parse_string.simps, simp)


lemma parse_singleton_object:
  "JSON_parse outside (''{'' @ quote k @ '':'' @ quote v @ ''}'') = Some (JObj [(k, JStr v)])"
proof -
  let ?text = "''{'' @ quote k @ '':'' @ quote v @ ''}''"
  have fuel: "2 * length ?text + 2 = Suc (Suc (Suc (2 * length ?text - 1)))"
    by simp
  have "parse_value (Suc (Suc (Suc (2 * length ?text - 1)))) ?text = Parsed (JObj [(k, JStr v)]) []"
    by (simp add: quote_def skip_ws_def is_ws_def parse_string_quoted del: parse_string.simps)
  then show ?thesis
    unfolding JSON_parse_def fuel by (simp add: skip_ws_def)
qed

lemma own_entries_urlToken: "own_entries [(''urlToken'', x)] = [(''urlToken'', x)]"
  by (simp add: own_entries_def is_index_def is_digit_def)

lemma local_config_text:
  "(case JSON_stringify (JObj [(''urlToken'', JStr tok)]) of None \<Rightarrow> ''undefined'' | Some s \<Rightarrow> s)
     = ''{'' @ quote ''urlToken'' @ '':'' @ quote tok @ ''}''"
  by (simp add: commas_def List.map_filter_def own_entries_urlToken)

text \<open>
  C2. Let the global config be an object whose \<^verbatim>\<open>token\<close> and \<^verbatim>\<open>email\<close> are non-empty
  strings, let the package name be \<^verbatim>\<open>demo\<close>, let the service answer the request with a
  body whose \<^verbatim>\<open>url_token\<close> is the string \<open>tok\<close>, and let the local config file be
  writable. Then \<open>createGitRepo\<close> adds to the events exactly: its log line, one POST to the
  API whose body contains \<^verbatim>\<open>"name":"demo"\<close>, the log line of the remote, and one shell
  command, which contains \<open>tok\<close> and the remote name \<^verbatim>\<open>rnplay\<close>; and the local config file
  then holds the JSON text of \<^verbatim>\<open>{urlToken: tok}\<close>, which \<open>readLocalConfig\<close> reads back as that
  object.
\<close>

theorem create_provisions_remote:
  assumes conf: "readConfig w st = Inr (JObj kvs)"
    and token: "map_of kvs ''token'' = Some (JStr t)" "t \<noteq> []"
    and email: "map_of kvs ''email'' = Some (JStr e)" "e \<noteq> []"
    and name: "maybeUsePackageName w = Inr (JStr ''demo'')"
    and api: "http_post w (createApi (PREFIX w))
                [(''Content-Type'', JStr ''application/json''), (''X-User-Email'', JStr e),
                 (''X-User-Token'', JStr t)]
                (request_body (JStr ''demo'')) = Inr response"
             "get_prop response ''url_token'' = Inr (JStr tok)"
    and save: "write_error w (LOCAL_CONFIG_PATH w) = None"
  shows "trace (snd (createGitRepo w st)) =
           trace st @
           [Info ''Setting up new git repo'',
            HttpPost (createApi (PREFIX w))
              [(''Content-Type'', JStr ''application/json''), (''X-User-Email'', JStr e),
               (''X-User-Token'', JStr t)]
              (request_body (JStr ''demo'')),
            Info ''Adding git remote'',
            Shell (''git remote add rnplay https://'' @ t @ '':@git.rnplay.org/'' @ tok @ ''.git'')]
       \<and> sublist (quote ''name'' @ '':'' @ quote ''demo'') (request_body (JStr ''demo''))
       \<and> files (snd (createGitRepo w st)) (LOCAL_CONFIG_PATH w)
            = Some (''{'' @ quote ''urlToken'' @ '':'' @ quote tok @ ''}'')
       \<and> readLocalConfig w (snd (createGitRepo w st)) = Inr (JObj [(''urlToken'', JStr tok)])
       \<and> sublist tok (''git remote add rnplay https://'' @ t @ '':@git.rnplay.org/'' @ tok @ ''.git'')
       \<and> sublist ''rnplay'' (''git remote add rnplay https://'' @ t @ '':@git.rnplay.org/'' @ tok @ ''.git'')"
proof -
  have checked: "getConfig w st = Inr (JObj kvs)"
    using conf token email by (simp add: getConfig_def checkConfig_def)
  have minted: "makeURLToken w (JStr ''demo'') (JObj kvs) st =
      (Inr (JStr tok),
       emit (HttpPost (createApi (PREFIX w))
              [(''Content-Type'', JStr ''application/json''), (''X-User-Email'', JStr e),
               (''X-User-Token'', JStr t)] (request_body (JStr ''demo'')))
         (emit (Info ''Setting up new git repo'') st))"
    using token email api
    by (simp add: makeURLToken_def makeURLToken_at_def postCreateRepo_request_def
        url_token_of_response_def Let_def)
  have cmd: "formatCommand (JStr tok) (JObj kvs) =
      Inr (''git remote add rnplay https://'' @ t @ '':@git.rnplay.org/'' @ tok @ ''.git'')"
    using token by (simp add: formatCommand_def)
  have run: "snd (createGitRepo w st) =
      emit (Shell (''git remote add rnplay https://'' @ t @ '':@git.rnplay.org/'' @ tok @ ''.git''))
       (emit (Info ''Adding git remote'')
         ((emit (HttpPost (createApi (PREFIX w))
              [(''Content-Type'', JStr ''application/json''), (''X-User-Email'', JStr e),
               (''X-User-Token'', JStr t)] (request_body (JStr ''demo'')))
            (emit (Info ''Setting up new git repo'') st))
          \<lparr>files := (files st)(LOCAL_CONFIG_PATH w \<mapsto> ''{'' @ quote ''urlToken'' @ '':'' @ quote tok @ ''}'')\<rparr>))"
    unfolding createGitRepo_def checked
    using name minted cmd save local_config_text [of tok]
    by (simp add: saveLocalConfig_def writeFileAsync_def execAsync_def added_remote_def emit_def
        Let_def split: option.splits)
  have s1: "sublist tok (''git remote add rnplay https://'' @ t @ '':@git.rnplay.org/'' @ tok @ ''.git'')"
    unfolding sublist_def
    by (rule exI [of _ "''git remote add rnplay https://'' @ t @ '':@git.rnplay.org/''"],
        rule exI [of _ "''.git''"]) simp
  have s2: "sublist ''rnplay'' (''git remote add rnplay https://'' @ t @ '':@git.rnplay.org/'' @ tok @ ''.git'')"
    unfolding sublist_def
    by (rule exI [of _ "''git remote add ''"],
        rule exI [of _ "'' https://'' @ t @ '':@git.rnplay.org/'' @ tok @ ''.git''"]) simp
  have reread: "readLocalConfig w (snd (createGitRepo w st)) = Inr (JObj [(''urlToken'', JStr tok)])"
    unfolding run using parse_singleton_object [of "JSON_parse_outside w" "''urlToken''" tok]
    by (simp add: readLocalConfig_def readFileAsync_def emit_def)
  show ?thesis
    using request_body_names_demo s1 s2 reread unfolding run by (simp add: emit_def)
qed

theorem create_provisions_remote_witness:
  "readConfig demo_env authed_state = Inr (JObj [(''token'', JStr ''t''), (''email'', JStr ''e'')])
   \<and> maybeUsePackageName demo_env = Inr (JStr ''demo'')
   \<and> write_error demo_env (LOCAL_CONFIG_PATH demo_env) = None
   \<and> trace (snd (createGitRepo demo_env authed_state)) =
       [Info ''Setting up new git repo'',
        HttpPost ''https://rnplay.org/apps.json''
          [(''Content-Type'', JStr ''application/json''), (''X-User-Email'', JStr ''e''),
           (''X-User-Token'', JStr ''t'')]
          (request_body (JStr ''demo'')),
        Info ''Adding git remote'',
        Shell ''git remote add rnplay https://t:@git.rnplay.org/abc123.git'']
   \<and> files (snd (createGitRepo demo_env authed_state)) (LOCAL_CONFIG_PATH demo_env)
        = Some (''{'' @ quote ''urlToken'' @ '':'' @ quote ''abc123'' @ ''}'')
   \<and> readLocalConfig demo_env (snd (createGitRepo demo_env authed_state))
        = Inr (JObj [(''urlToken'', JStr ''abc123'')])"
proof -
  have api: "http_post demo_env (createApi (PREFIX demo_env))
      [(''Content-Type'', JStr ''application/json''), (''X-User-Email'', JStr ''e''),
       (''X-User-Token'', JStr ''t'')]
      (request_body (JStr ''demo'')) = Inr (JObj [(''url_token'', JStr ''abc123'')])"
    by (simp add: demo_env_def)
  have name: "maybeUsePackageName demo_env = Inr (JStr ''demo'')"
    and save: "write_error demo_env (LOCAL_CONFIG_PATH demo_env) = None"
    by (simp_all add: demo_env_def)
  have url: "createApi (PREFIX demo_env) = ''https://rnplay.org/apps.json''"
    by (simp add: createApi_def PREFIX_def demo_env_def)
  have fresh: "trace authed_state = []"
    by (simp add: authed_state_def)
  have token: "map_of [(''token'', JStr ''t''), (''email'', JStr ''e'')] ''token'' = Some (JStr ''t'')"
    and email: "map_of [(''token'', JStr ''t''), (''email'', JStr ''e'')] ''email'' = Some (JStr ''e'')"
    and filled: "''t'' \<noteq> []" "''e'' \<noteq> []"
    and minted: "get_prop (JObj [(''url_token'', JStr ''abc123'')]) ''url_token'' = Inr (JStr ''abc123'')"
    by simp_all
  note run = create_provisions_remote
    [OF readConfig_authed token filled(1) email filled(2) name api minted save]
  show ?thesis
    using run readConfig_authed name save by (simp add: url fresh)
qed

text \<open>
  C3. The run of \<open>createGitRepo\<close> in \<open>demo_env\<close> from a valid config: the command
  \<^verbatim>\<open>git remote add\<close> is run and succeeds, and the action then fails with the
  ReferenceError of \<^verbatim>\<open>remoteName\<close>; the events end with the shell command, and no line of
  the report (remote name, url, hints) follows it.
\<close>

theorem create_fails_after_remote_added:
  "exec_error demo_env ''git remote add rnplay https://t:@git.rnplay.org/abc123.git'' = None
   \<and> fst (createGitRepo demo_env authed_state) = Inl (ReferenceError ''remoteName'')
   \<and> trace (snd (createGitRepo demo_env authed_state)) =
       [Info ''Setting up new git repo'',
        HttpPost ''https://rnplay.org/apps.json''
          [(''Content-Type'', JStr ''application/json''), (''X-User-Email'', JStr ''e''),
           (''X-User-Token'', JStr ''t'')]
          (''{'' @ quote ''app'' @ '':{'' @ quote ''name'' @ '':'' @ quote ''demo'' @ '','' @ quote ''uses_git'' @ '':1}}''),
        Info ''Adding git remote'',
        Shell ''git remote add rnplay https://t:@git.rnplay.org/abc123.git'']"
  by code_simp

text \<open>The promise of \<open>createGitRepo\<close> is fulfilled in no world and from no state.\<close>

lemma createGitRepo_never_fulfilled: "fst (createGitRepo w st) \<noteq> Inr ()"
  by (simp add: createGitRepo_def added_remote_def Let_def split: sum.splits prod.splits)

text \<open>The older program reports after the command: its run in \<open>demo_env\<close> is fulfilled.\<close>

lemma createGitRepo_legacy_reports:
  "fst (createGitRepo_legacy demo_env authed_state) = Inr ()
   \<and> last (trace (snd (createGitRepo_legacy demo_env authed_state))) =
       Ok ''You can use  `rnplay-cli --open` to open this application on rnplay.org''"
  by code_simp

text \<open>The command of the newer program has the URL of the specification's shape.\<close>

lemma formatCommand_shape:
  "formatCommand (JStr u) (JObj [(''token'', JStr t)])
     = Inr (''git remote add rnplay '' @ spec_git_remote_url t baseHost u)"
  by (simp add: formatCommand_def spec_git_remote_url_def baseHost_def)

text \<open>
  C8. The older program, for the token \<^verbatim>\<open>t\<close> and the url token \<^verbatim>\<open>abc123\<close>, builds the URL
  \<^verbatim>\<open>https://t:@git.rnplay.org:jsierles/abc123.git\<close>, which is not the URL of the
  specification's shape for the host \<^verbatim>\<open>rnplay.org\<close>, and hands it to \<^verbatim>\<open>git remote add\<close>.
\<close>

theorem legacy_git_url_shape:
  "git_url_legacy (JObj [(''token'', JStr ''t''), (''email'', JStr ''e'')]) (JStr ''abc123'')
     = Inr ''https://t:@git.rnplay.org:jsierles/abc123.git''
   \<and> ''https://t:@git.rnplay.org:jsierles/abc123.git'' \<noteq> spec_git_remote_url ''t'' baseHost ''abc123''
   \<and> Shell (''git remote add rnplay https://t:@git.rnplay.org:jsierles/abc123.git'')
       \<in> set (trace (snd (createGitRepo_legacy demo_env authed_state)))"
  by code_simp

section \<open>The open action\<close>

text \<open>
  C4. Let the local config be an object. If it has no \<^verbatim>\<open>urlToken\<close>, \<open>openAppInBrowser\<close>
  adds one event, the error line that tells the user to run \<^verbatim>\<open>rnplay --create\<close> first, and
  opens no URL. If its \<^verbatim>\<open>urlToken\<close> is \<^verbatim>\<open>abc123\<close>, it adds one event: the URL
  \<open>RNPLAY_APP_URL\<close> followed by \<^verbatim>\<open>abc123\<close>, handed to \<^verbatim>\<open>opener\<close>.
\<close>

theorem open_app_in_browser:
  assumes "readLocalConfig w st = Inr (JObj kvs)"
  shows "(map_of kvs ''urlToken'' = None \<longrightarrow>
            fst (openAppInBrowser w st) = Inr ()
          \<and> trace (snd (openAppInBrowser w st)) =
              trace st @ [ErrorMsg ''You have to create an application using `rnplay --create` first''])
       \<and> (map_of kvs ''urlToken'' = Some (JStr ''abc123'') \<longrightarrow>
            fst (openAppInBrowser w st) = Inr ()
          \<and> trace (snd (openAppInBrowser w st)) =
              trace st @ [OpenUrl (RNPLAY_APP_URL w @ ''abc123'')])"
  using assms by (simp add: openAppInBrowser_def emit_def)

lemma local_empty: "readLocalConfig demo_env (local_state ''{}'') = Inr (JObj [])"
  by code_simp

lemma local_abc: "readLocalConfig demo_env (local_state (''{'' @ quote ''urlToken'' @ '':'' @ quote ''abc123'' @ ''}''))
   = Inr (JObj [(''urlToken'', JStr ''abc123'')])"
  by code_simp

theorem open_app_in_browser_witness:
  "readLocalConfig demo_env (local_state ''{}'') = Inr (JObj [])
   \<and> map_of ([] :: (string \<times> jsval) list) ''urlToken'' = None
   \<and> fst (openAppInBrowser demo_env (local_state ''{}'')) = Inr ()
   \<and> trace (snd (openAppInBrowser demo_env (local_state ''{}''))) =
       [ErrorMsg ''You have to create an application using `rnplay --create` first'']
   \<and> readLocalConfig demo_env (local_state (''{'' @ quote ''urlToken'' @ '':'' @ quote ''abc123'' @ ''}''))
       = Inr (JObj [(''urlToken'', JStr ''abc123'')])
   \<and> map_of [(''urlToken'', JStr ''abc123'')] ''urlToken'' = Some (JStr ''abc123'')
   \<and> trace (snd (openAppInBrowser demo_env
         (local_state (''{'' @ quote ''urlToken'' @ '':'' @ quote ''abc123'' @ ''}'')))) =
       [OpenUrl ''https://rnplay.org/apps/abc123'']"
proof -
  note absent = open_app_in_browser [OF local_empty]
    and present = open_app_in_browser [OF local_abc]
  have url: "RNPLAY_APP_URL demo_env = ''https://rnplay.org/apps/''"
    by (simp add: RNPLAY_APP_URL_def PREFIX_def demo_env_def)
  have fresh: "trace (local_state x) = []" for x
    by (simp add: local_state_def)
  show ?thesis
    using absent present local_empty local_abc by (simp add: url fresh)
qed

section \<open>The environment prefix\<close>

text \<open>
  C7, as stated, fails: the older program posts to the staging host with the variable
  unset, opens the unprefixed host with the variable set to \<^verbatim>\<open>staging\<close>, and the newer
  program puts no dot in front of the host for the variable set to the empty string.
\<close>

theorem env_prefix_counterexample:
  "APP_ENDPOINT \<noteq> spec_api_url None
   \<and> RN_PLAY_APP_URL \<noteq> spec_web_url (Some ''staging'')
   \<and> RNPLAY_APP_URL (demo_env\<lparr>RNPLAY_ENV := Some []\<rparr>) \<noteq> spec_web_url (Some [])"
  by code_simp

text \<open>
  C7, amended. In the newer program, where the variable is set to a non-empty value, the
  prefix handed to the API client is the value followed by a dot and the web URL is the
  specification's for that value; where it is unset or empty, the prefix is empty and the web
  URL is the unprefixed one. The older program does not read the variable: its web URL is
  the unprefixed one, whatever the variable.
\<close>

theorem env_prefix:
  "(RNPLAY_ENV w = Some v \<and> v \<noteq> [] \<longrightarrow> PREFIX w = v @ ''.'' \<and> RNPLAY_APP_URL w = spec_web_url (Some v))
   \<and> (RNPLAY_ENV w = None \<or> RNPLAY_ENV w = Some [] \<longrightarrow> PREFIX w = [] \<and> RNPLAY_APP_URL w = spec_web_url None)
   \<and> RN_PLAY_APP_URL = spec_web_url None"
  by (auto simp: PREFIX_def RNPLAY_APP_URL_def spec_web_url_def spec_prefix_def baseHost_def
      RN_PLAY_APP_URL_def)

theorem env_prefix_witness:
  "RNPLAY_ENV (demo_env\<lparr>RNPLAY_ENV := Some ''staging''\<rparr>) = Some ''staging''
   \<and> PREFIX (demo_env\<lparr>RNPLAY_ENV := Some ''staging''\<rparr>) = ''staging.''
   \<and> RNPLAY_APP_URL (demo_env\<lparr>RNPLAY_ENV := Some ''staging''\<rparr>) = ''https://staging.rnplay.org/apps/''
   \<and> RNPLAY_ENV demo_env = None
   \<and> PREFIX demo_env = []
   \<and> RNPLAY_APP_URL demo_env = ''https://rnplay.org/apps/''"
proof -
  have unset: "RNPLAY_ENV demo_env = None"
    by (simp add: demo_env_def)
  have urls: "spec_web_url (Some ''staging'') = ''https://staging.rnplay.org/apps/''"
    "spec_web_url None = ''https://rnplay.org/apps/''"
    by (simp_all add: spec_web_url_def spec_prefix_def baseHost_def)
  show ?thesis
    using env_prefix [of "demo_env\<lparr>RNPLAY_ENV := Some ''staging''\<rparr>" "''staging''"]
      env_prefix [of demo_env] unset
    by (simp add: urls)
qed

section \<open>How the chains of a split advance\<close>

lemmas step_defs = split_step_def branch_step_def fail_branch_def done_callback_def resolve_def
  emit_def Let_def postCreateRepo_request_def

lemma split_step_frame:
  "files (split_step w s i) = files s \<and> jobs (split_step w s i) = jobs s
   \<and> folders_length (split_step w s i) = folders_length s
   \<and> length (branches (split_step w s i)) = length (branches s)"
  by (auto simp: step_defs split: branch.splits option.splits sum.splits prod.splits)

lemma split_step_other:
  "j \<noteq> i \<Longrightarrow> branches (split_step w s i) ! j = branches s ! j"
  by (auto simp: step_defs split: branch.splits option.splits sum.splits prod.splits)


lemma split_step_Finished:
  "branches s ! j = Finished \<Longrightarrow> branches (split_step w s i) ! j = Finished"
  by (cases "j = i") (auto simp: step_defs split: branch.splits option.splits sum.splits prod.splits)

lemma split_step_promise:
  "promise (split_step w s i) = promise s
   \<or> (promise s = Pending \<and> promise (split_step w s i) = Resolved \<and> truthy (info_result w)
      \<and> Suc i = folders_length s \<and> i < length (branches s)
      \<and> branches (split_step w s i) ! i = Finished)"
  by (auto simp: step_defs split: branch.splits option.splits sum.splits prod.splits)


text \<open>
  The two completions of a chain after its copy are a run of \<^verbatim>\<open>getAddRemoteCommand\<close> for
  the project, then \<^verbatim>\<open>exec\<close> of the command and the \<^verbatim>\<open>done\<close> handler, or the exception
  thrown out of \<^verbatim>\<open>done\<close>.
\<close>

lemma branch_runs_getAddRemoteCommand:
  assumes "i < length (branches s)" and "branches s ! i = AwaitConfig"
  shows "split_step w (split_step w s i) i =
     (case getAddRemoteCommand w (JStr (project (jobs s ! i))) s of
        (Inl e, s1) \<Rightarrow> fail_branch i e s1
      | (Inr cmd, s1) \<Rightarrow>
          done_callback w i
            ((emit (Shell (''cd '' @ target (jobs s ! i) @ '' && git init && '' @ cmd)) s1)
               \<lparr>branches := (branches s)[i := Finished]\<rparr>))"
  using assms
  by (auto simp: split_step_def branch_step_def getAddRemoteCommand_def makeURLToken_def
      makeURLToken_at_def postCreateRepo_request_def fail_branch_def emit_def Let_def
      split: sum.splits prod.splits)


lemma foldl_step_frame:
  "files (foldl (split_step w) s is) = files s \<and> jobs (foldl (split_step w) s is) = jobs s
   \<and> folders_length (foldl (split_step w) s is) = folders_length s
   \<and> length (branches (foldl (split_step w) s is)) = length (branches s)"
  by (induction "is" arbitrary: s) (simp_all add: split_step_frame)


lemma split_step_resolved_by_last:
  assumes "resolved_by_last w s"
  shows "resolved_by_last w (split_step w s i)"
proof (cases "promise (split_step w s i) = promise s")
  case True
  show ?thesis
  proof (cases "promise s = Resolved")
    case False
    with True show ?thesis by (simp add: resolved_by_last_def)
  next
    case Resolved: True
    with assms have last: "truthy (info_result w)" "0 < folders_length s"
      "folders_length s \<le> length (branches s)" "branches s ! (folders_length s - 1) = Finished"
      by (simp_all add: resolved_by_last_def)
    from split_step_Finished [OF last(4)] last split_step_frame [of w s i]
    show ?thesis by (simp add: resolved_by_last_def)
  qed
next
  case False
  with split_step_promise [of w s i]
  have now: "truthy (info_result w)" "Suc i = folders_length s" "i < length (branches s)"
    "branches (split_step w s i) ! i = Finished"
    by auto
  moreover from now(2) have "folders_length s - 1 = i" by simp
  ultimately show ?thesis
    using split_step_frame [of w s i] by (simp add: resolved_by_last_def)
qed

lemma foldl_step_resolved_by_last:
  "resolved_by_last w s \<Longrightarrow> resolved_by_last w (foldl (split_step w) s is)"
  by (induction "is" arbitrary: s) (simp_all add: split_step_resolved_by_last)


lemma split_step_settles:
  assumes "promise s \<noteq> Resolved \<longrightarrow> promise s = Pending \<and> branches s ! i \<noteq> Finished"
    and "Suc i = folders_length s" and "i < length (branches s)" and "truthy (info_result w)"
    and "branches (split_step w s j) ! i = Finished"
  shows "promise (split_step w s j) = Resolved"
proof (cases "promise s = Resolved")
  case True
  with split_step_promise [of w s j] show ?thesis by auto
next
  case False
  with assms(1) have pending: "promise s = Pending" and running: "branches s ! i \<noteq> Finished"
    by simp_all
  have "j = i"
    using split_step_other [of i j w s] running assms(5) by auto
  with assms pending running show ?thesis
    by (auto simp: step_defs split: branch.splits option.splits sum.splits prod.splits if_splits)
qed

lemma foldl_step_settles:
  assumes "promise s \<noteq> Resolved \<longrightarrow> promise s = Pending \<and> branches s ! i \<noteq> Finished"
    and "Suc i = folders_length s" and "i < length (branches s)" and "truthy (info_result w)"
    and "branches (foldl (split_step w) s js) ! i = Finished"
  shows "promise (foldl (split_step w) s js) = Resolved"
  using assms
proof (induction js arbitrary: s)
  case Nil
  then show ?case by auto
next
  case (Cons j js)
  let ?s = "split_step w s j"
  have frame: "folders_length ?s = folders_length s" "length (branches ?s) = length (branches s)"
    using split_step_frame [of w s j] by simp_all
  have "promise ?s \<noteq> Resolved \<longrightarrow> promise ?s = Pending \<and> branches ?s ! i \<noteq> Finished"
    using split_step_settles [OF Cons.prems(1-4), of j] split_step_promise [of w s j] Cons.prems(1)
    by auto
  from Cons.IH [OF this] Cons.prems(2-5) frame show ?case
    by simp
qed

text \<open>The executor: what has happened when \<^verbatim>\<open>splitByConfig\<close> returns.\<close>

lemma processRNPlayConfig_frame:
  "processRNPlayConfig w s = (r, s') \<Longrightarrow>
     files s' = files s \<and> jobs s' = jobs s \<and> branches s' = branches s
     \<and> folders_length s' = folders_length s \<and> promise s' = promise s \<and> uncaught s' = uncaught s"
  by (auto simp: processRNPlayConfig_def emit_def split: sum.splits if_splits)

lemma forEach_launch_frame:
  "files (forEach_launch w kvs s) = files s \<and> folders_length (forEach_launch w kvs s) = folders_length s
   \<and> uncaught (forEach_launch w kvs s) = uncaught s
   \<and> length (branches (forEach_launch w kvs s)) \<le> length (branches s) + length kvs
   \<and> (promise (forEach_launch w kvs s) = promise s
      \<or> (\<exists>e. promise (forEach_launch w kvs s) = Rejected e)
        \<and> length (branches (forEach_launch w kvs s)) < length (branches s) + length kvs)"
proof (induction kvs arbitrary: s)
  case Nil
  show ?case by simp
next
  case (Cons kv kvs)
  obtain proj dir where kv: "kv = (proj, dir)" by (cases kv)
  show ?case
  proof (cases "ToString dir")
    case (Inl e)
    then show ?thesis by (simp add: kv emit_def Let_def)
  next
    case (Inr d)
    let ?s2 = "emit (Shell (''cp -r '' @ d @ '' '' @ path_join w (tmp w) proj))
                 (emit (Info (''Adding git remote for '' @ proj)) s)"
    let ?s3 = "?s2\<lparr>jobs := jobs ?s2 @ [\<lparr>project = proj, target = path_join w (tmp w) proj,
                   copy_cmd = ''cp -r '' @ d @ '' '' @ path_join w (tmp w) proj\<rparr>],
                 branches := branches ?s2 @ [AwaitCopy]\<rparr>"
    have unfold: "forEach_launch w (kv # kvs) s = forEach_launch w kvs ?s3"
      using Inr by (simp add: kv Let_def)
    from Cons [of ?s3] show ?thesis
      unfolding unfold by (auto simp: emit_def)
  qed
qed

lemma split_start_frame:
  "files (split_start w st) = files st \<and> uncaught (split_start w st) = None
   \<and> promise (split_start w st) \<noteq> Resolved
   \<and> length (branches (split_start w st)) \<le> folders_length (split_start w st)
   \<and> (0 < folders_length (split_start w st)
        \<and> folders_length (split_start w st) \<le> length (branches (split_start w st))
       \<longrightarrow> promise (split_start w st) = Pending)"
proof (cases "processRNPlayConfig w (split_init st)")
  case (Pair r s)
  note frame = processRNPlayConfig_frame [OF Pair]
  have init: "files (split_init st) = files st" "branches (split_init st) = []"
    "promise (split_init st) = Pending" "uncaught (split_init st) = None"
    "folders_length (split_init st) = 0"
    by (simp_all add: split_init_def state.defs)
  show ?thesis
  proof (cases r)
    case (Inl e)
    with Pair frame init show ?thesis by (simp add: split_start_def)
  next
    case (Inr config)
    show ?thesis
    proof (cases "entries_of (string_entries w) config")
      case (Inl e)
      with Pair Inr frame init show ?thesis by (simp add: split_start_def)
    next
      case folders: (Inr folders)
      have start: "split_start w st = forEach_launch w folders (s\<lparr>folders_length := length folders\<rparr>)"
        using Pair Inr folders by (simp add: split_start_def)
      from forEach_launch_frame [of w folders "s\<lparr>folders_length := length folders\<rparr>"] frame init
      show ?thesis unfolding start by auto
    qed
  qed
qed

lemma split_start_resolved_by_last: "resolved_by_last w (split_start w st)"
  using split_start_frame [of w st] by (simp add: resolved_by_last_def)

lemma splitByConfig_resolved_by_last: "resolved_by_last w (splitByConfig w st schedule)"
  unfolding splitByConfig_def
  by (rule foldl_step_resolved_by_last) (rule split_start_resolved_by_last)

lemma splitByConfig_frame:
  "files (splitByConfig w st schedule) = files st
   \<and> folders_length (splitByConfig w st schedule) = folders_length (split_start w st)
   \<and> length (branches (splitByConfig w st schedule)) = length (branches (split_start w st))"
  unfolding splitByConfig_def
  using foldl_step_frame [of w "split_start w st" schedule] split_start_frame [of w st] by simp

lemma foldl_step_no_branches: "branches s = [] \<Longrightarrow> foldl (split_step w) s is = s"
  by (induction "is" arbitrary: s) (simp_all add: split_step_def)

lemma forEach_launch_events:
  "list_all unsent (branches s) \<Longrightarrow>
     list_all unsent (branches (forEach_launch w kvs s))
     \<and> (\<exists>evs. trace (forEach_launch w kvs s) = trace s @ evs \<and> list_all launch_event evs)"
proof (induction kvs arbitrary: s)
  case Nil
  then show ?case by simp
next
  case (Cons kv kvs)
  obtain proj dir where kv: "kv = (proj, dir)" by (cases kv)
  show ?case
  proof (cases "ToString dir")
    case (Inl e)
    with Cons.prems show ?thesis by (simp add: kv emit_def Let_def)
  next
    case (Inr d)
    let ?s2 = "emit (Shell (''cp -r '' @ d @ '' '' @ path_join w (tmp w) proj))
                 (emit (Info (''Adding git remote for '' @ proj)) s)"
    let ?s3 = "?s2\<lparr>jobs := jobs ?s2 @ [\<lparr>project = proj, target = path_join w (tmp w) proj,
                   copy_cmd = ''cp -r '' @ d @ '' '' @ path_join w (tmp w) proj\<rparr>],
                 branches := branches ?s2 @ [AwaitCopy]\<rparr>"
    have unfold: "forEach_launch w (kv # kvs) s = forEach_launch w kvs ?s3"
      using Inr by (simp add: kv Let_def)
    have "list_all unsent (branches ?s3)"
      using Cons.prems by (simp add: emit_def)
    from Cons.IH [OF this] obtain evs where
      rest: "list_all unsent (branches (forEach_launch w kvs ?s3))"
        "trace (forEach_launch w kvs ?s3) = trace ?s3 @ evs" "list_all launch_event evs"
      by blast
    have "trace ?s3 = trace s @ [Info (''Adding git remote for '' @ proj),
        Shell (''cp -r '' @ d @ '' '' @ path_join w (tmp w) proj)]"
      by (simp add: emit_def)
    with rest show ?thesis
      unfolding unfold by simp
  qed
qed

lemma split_start_events:
  "list_all unsent (branches (split_start w st))
   \<and> (\<exists>evs. trace (split_start w st) = trace st @ evs \<and> list_all launch_event evs)"
proof (cases "processRNPlayConfig w (split_init st)")
  case (Pair r s)
  have init: "branches (split_init st) = []" "trace (split_init st) = trace st"
    by (simp_all add: split_init_def state.defs)
  have s: "branches s = []"
    "trace s = trace st \<or> trace s = trace st @ [Fatal ''No rnplay config found. Make sure you have rnplay config in your package.json'']"
    using Pair init
    by (auto simp: processRNPlayConfig_def emit_def split: sum.splits if_splits)
  then have events: "\<exists>evs. trace s = trace st @ evs \<and> list_all launch_event evs"
    by auto
  show ?thesis
  proof (cases r)
    case (Inl e)
    with Pair s events show ?thesis by (simp add: split_start_def)
  next
    case (Inr config)
    show ?thesis
    proof (cases "entries_of (string_entries w) config")
      case (Inl e)
      with Pair Inr s events show ?thesis by (simp add: split_start_def)
    next
      case folders: (Inr folders)
      have start: "split_start w st = forEach_launch w folders (s\<lparr>folders_length := length folders\<rparr>)"
        using Pair Inr folders by (simp add: split_start_def)
      from forEach_launch_events [of "s\<lparr>folders_length := length folders\<rparr>" w folders] s(1)
      obtain evs where launched: "list_all unsent (branches (split_start w st))"
        "trace (split_start w st) = trace s @ evs" "list_all launch_event evs"
        unfolding start by auto
      from events obtain evs0 where "trace s = trace st @ evs0" "list_all launch_event evs0"
        by blast
      with launched have "trace (split_start w st) = trace st @ (evs0 @ evs)"
        "list_all launch_event (evs0 @ evs)"
        by simp_all
      with launched(1) show ?thesis by blast
    qed
  qed
qed

text \<open>
  Where every entry was started, the promise is resolved exactly in the states where the
  chain of the last entry is through and \<^verbatim>\<open>cli.info\<close> returned a truthy value.
\<close>

lemma split_resolves_iff:
  assumes "0 < folders_length (split_start w st)"
    and "folders_length (split_start w st) \<le> length (branches (split_start w st))"
  shows "promise (splitByConfig w st schedule) = Resolved \<longleftrightarrow>
           truthy (info_result w)
           \<and> branches (splitByConfig w st schedule) ! (folders_length (split_start w st) - 1) = Finished"
proof
  assume "promise (splitByConfig w st schedule) = Resolved"
  with splitByConfig_resolved_by_last [of w st schedule] splitByConfig_frame [of w st schedule]
  show "truthy (info_result w)
      \<and> branches (splitByConfig w st schedule) ! (folders_length (split_start w st) - 1) = Finished"
    by (simp add: resolved_by_last_def)
next
  let ?s = "split_start w st" and ?i = "folders_length (split_start w st) - 1"
  assume through: "truthy (info_result w)
      \<and> branches (splitByConfig w st schedule) ! (folders_length (split_start w st) - 1) = Finished"
  have index: "Suc ?i = folders_length ?s" "?i < length (branches ?s)"
    using assms by simp_all
  have "unsent (branches ?s ! ?i)"
    using split_start_events [of w st] index(2) by (simp add: list_all_length)
  then have "branches ?s ! ?i \<noteq> Finished"
    by auto
  moreover have "promise ?s = Pending"
    using split_start_frame [of w st] assms by simp
  ultimately have start: "promise ?s \<noteq> Resolved \<longrightarrow> promise ?s = Pending \<and> branches ?s ! ?i \<noteq> Finished"
    by simp
  from through show "promise (splitByConfig w st schedule) = Resolved"
    unfolding splitByConfig_def
    by (intro foldl_step_settles [OF start index]) simp_all
qed

section \<open>When the promise of a split settles\<close>

text \<open>
  C6. Where \<^verbatim>\<open>processRNPlayConfig\<close> returns a config without entries, the promise of
  \<open>splitByConfig\<close> is pending after every sequence of completions: it never resolves.
\<close>

theorem no_entries_never_resolves:
  assumes "fst (processRNPlayConfig w (split_init st)) = Inr config"
    and "entries_of (string_entries w) config = Inr []"
  shows "promise (splitByConfig w st schedule) = Pending"
proof -
  obtain s where run: "processRNPlayConfig w (split_init st) = (Inr config, s)"
    using assms(1) by (cases "processRNPlayConfig w (split_init st)") simp
  have init: "branches (split_init st) = []" "promise (split_init st) = Pending"
    by (simp_all add: split_init_def state.defs)
  have start: "split_start w st = s\<lparr>folders_length := 0\<rparr>"
    using run assms(2) by (simp add: split_start_def)
  have "branches (split_start w st) = []" "promise (split_start w st) = Pending"
    using processRNPlayConfig_frame [OF run] init by (simp_all add: start)
  then show ?thesis
    by (simp add: splitByConfig_def foldl_step_no_branches)
qed

theorem no_entries_never_resolves_witness:
  "fst (processRNPlayConfig no_entries_env (split_init authed_state)) = Inr (JObj [])
   \<and> entries_of (string_entries no_entries_env) (JObj []) = Inr []
   \<and> promise (splitByConfig no_entries_env authed_state [0, 1, 0]) = Pending"
proof -
  have config: "fst (processRNPlayConfig no_entries_env (split_init authed_state)) = Inr (JObj [])"
    by (simp add: processRNPlayConfig_def getPackageConfig_def no_entries_env_def demo_env_def)
  have none: "entries_of (string_entries no_entries_env) (JObj []) = Inr []"
    by (simp add: own_entries_def)
  from no_entries_never_resolves [OF config none, of "[0, 1, 0]"] config none
  show ?thesis by simp
qed

text \<open>
  C5. The run of \<open>splitByConfig\<close> in \<open>demo_env\<close>, where \<^verbatim>\<open>cli.info\<close> returns
  \<^verbatim>\<open>undefined\<close>, for a manifest with one entry: after the three completions of its chain
  the chain is through and has logged its last line, and the promise is still pending.
\<close>

theorem split_never_resolves_on_completion:
  "branches (splitByConfig demo_env authed_state [0, 0, 0]) = [Finished]
   \<and> folders_length (splitByConfig demo_env authed_state [0, 0, 0]) = 1
   \<and> last (trace (splitByConfig demo_env authed_state [0, 0, 0])) = Info ''Done setup for /tmp/one''
   \<and> info_result demo_env = JUndefined
   \<and> promise (splitByConfig demo_env authed_state [0, 0, 0]) = Pending"
  by code_simp

text \<open>With a falsy result of \<^verbatim>\<open>cli.info\<close> the promise is resolved in no run.\<close>

lemma never_resolved_without_info_result:
  "\<not> truthy (info_result w) \<Longrightarrow> promise (splitByConfig w st schedule) \<noteq> Resolved"
  using splitByConfig_resolved_by_last [of w st schedule] by (auto simp: resolved_by_last_def)

text \<open>
  The git command of a chain is handed to \<^verbatim>\<open>exec\<close> and not waited for: in \<open>git_fails_env\<close>
  it fails, and the chain is through all the same.
\<close>

lemma git_failure_unobserved:
  "exec_error git_fails_env
      ''cd /tmp/one && git init && git remote add rnplay https://t:@git.rnplay.org/abc123.git''
     = Some ''fatal: not a git repository''
   \<and> last (butlast (trace (splitByConfig git_fails_env authed_state [0, 0, 0])))
     = Shell ''cd /tmp/one && git init && git remote add rnplay https://t:@git.rnplay.org/abc123.git''
   \<and> branches (splitByConfig git_fails_env authed_state [0, 0, 0]) = [Finished]
   \<and> promise (splitByConfig git_fails_env authed_state [0, 0, 0]) = Pending"
  by code_simp







section \<open>A missing or malformed global config\<close>









text \<open>
  One completion, and then any number of them, where the config cannot be read or fails
  the check: nothing is printed, sent or run; a chain goes the way of \<open>chain_after\<close>; and an
  error thrown out of \<^verbatim>\<open>done\<close> is that of the config or of a copy.
\<close>

lemma chain_after_Suc:
  "chain_after w e j (Suc k) =
     (case exec_error w (copy_cmd j) of
        Some m \<Rightarrow> Failed (ShellCommandError m)
      | None \<Rightarrow> (if k = 0 then AwaitConfig else Failed e))"
  by (simp add: chain_after_def)










end
